theory Spec2Isabelle
  imports Main
begin

section \<open>The storybook package of templ: data model\<close>

text \<open>
  The development follows \<^verbatim>\<open>storybook/storybook.go\<close>. Go values of type
  \<^verbatim>\<open>interface{}\<close> are values of the datatype \<open>val\<close>; the type parameter \<open>'o\<close> is the Go
  type an \<^verbatim>\<open>ObjectArg\<close> decodes into. Floating point values (\<^verbatim>\<open>FloatArg\<close>) are left out.
\<close>

text \<open>
  Modelled from the spec: \<^verbatim>\<open>templ.Component\<close>, declared in the root package of the
  repository, is "an opaque value capable of producing output bytes when asked to render".
  The model keeps the bytes it renders.
\<close>

datatype Component = Component (Render: string)

datatype 'o val =
    VNil
  | VString string
  | VBool bool
  | VInt int
  | VMap "(string \<times> 'o val) list"
  | VObject 'o
  | VComponent Component

subsection \<open>SortedMap\<close>

text \<open>
  \<^verbatim>\<open>type SortedMap struct { m *sync.Mutex; internal map[string]interface{}; keys []string }\<close>.
  The model is sequential, so the mutex has no field.
\<close>

record 'o SortedMap =
  internal :: "string \<rightharpoonup> 'o val"
  keys :: "string list"

definition NewSortedMap :: "'o SortedMap" where
  "NewSortedMap = \<lparr>internal = Map.empty, keys = []\<rparr>"

definition Add :: "'o SortedMap \<Rightarrow> string \<Rightarrow> 'o val \<Rightarrow> 'o SortedMap" where
  "Add sm key v = sm\<lparr>keys := keys sm @ [key], internal := (internal sm)(key \<mapsto> v)\<rparr>"

text \<open>A sequence of \<open>Add\<close> calls, first call first.\<close>

definition AddAll :: "'o SortedMap \<Rightarrow> (string \<times> 'o val) list \<Rightarrow> 'o SortedMap" where
  "AddAll sm kvs = foldl (\<lambda>m (k, v). Add m k v) sm kvs"

text \<open>
  \<^verbatim>\<open>json.Encoder.Encode\<close> belongs to the Go standard library and is a parameter \<open>E\<close>:
  \<open>E v = Some s\<close> when it writes the bytes \<open>s\<close> (the JSON text of \<open>v\<close> and a newline),
  \<open>E v = None\<close> when marshalling fails, and then nothing is written. \<open>MarshalJSON\<close> drops
  the error \<open>Encode\<close> returns.
\<close>

type_synonym 'o Encode = "'o val \<Rightarrow> string option"

definition Encode_into :: "'o Encode \<Rightarrow> string \<Rightarrow> 'o val \<Rightarrow> string" where
  "Encode_into E b v = (case E v of None \<Rightarrow> b | Some s \<Rightarrow> b @ s)"

text \<open>\<^verbatim>\<open>sm.internal[k]\<close>: a key that is missing reads as the nil interface value.\<close>

definition index_internal :: "'o SortedMap \<Rightarrow> string \<Rightarrow> 'o val" where
  "index_internal sm k = (case internal sm k of None \<Rightarrow> VNil | Some v \<Rightarrow> v)"

text \<open>
  The loop \<^verbatim>\<open>for i, k := range sm.keys\<close> of \<open>MarshalJSON\<close>: \<open>i\<close> is the index, the list
  holds the keys still to visit, \<open>b\<close> is the buffer.
\<close>

fun MarshalJSON_loop ::
  "'o Encode \<Rightarrow> 'o SortedMap \<Rightarrow> nat \<Rightarrow> string list \<Rightarrow> string \<Rightarrow> string" where
  "MarshalJSON_loop E sm i [] b = b"
| "MarshalJSON_loop E sm i (k # ks) b =
     (let b1 = Encode_into E b (VString k);
          b2 = b1 @ '':'';
          b3 = Encode_into E b2 (index_internal sm k);
          b4 = (if int i < int (length (keys sm)) - 1 then b3 @ '','' else b3)
      in MarshalJSON_loop E sm (Suc i) ks b4)"

text \<open>\<open>MarshalJSON\<close> returns the bytes and an error that is always nil.\<close>

definition MarshalJSON :: "'o Encode \<Rightarrow> 'o SortedMap \<Rightarrow> string \<times> string option" where
  "MarshalJSON E sm =
     (let b = ''{'';
          b = MarshalJSON_loop E sm 0 (keys sm) b;
          b = b @ ''}''
      in (b, None))"

subsection \<open>Story and Conf\<close>

text \<open>
  \<^verbatim>\<open>type Story struct { Name string; Args *SortedMap }\<close>; the fields carry the prefix
  \<open>Story\<close> because \<open>Arg\<close> and \<open>Conf\<close> have fields of the same names.
\<close>

record 'o Story =
  StoryName :: string
  StoryArgs :: "'o SortedMap"

text \<open>\<^verbatim>\<open>type StoryParameters struct { Server map[string]interface{} }\<close>\<close>

record 'o StoryParameters =
  Server :: "string \<rightharpoonup> 'o val"

record 'o Conf =
  Title :: string
  Parameters :: "'o StoryParameters"
  Args :: "'o SortedMap"
  ArgTypes :: "'o SortedMap"
  Stories :: "'o Story list"

subsection \<open>Query parameters and the cells behind pointers\<close>

text \<open>
  \<^verbatim>\<open>url.Values\<close> is \<^verbatim>\<open>map[string][]string\<close>; \<^verbatim>\<open>Get\<close> returns the first value of the
  key, or the empty string when there is none.
\<close>

type_synonym Values = "string \<rightharpoonup> string list"

definition Values_Get :: "Values \<Rightarrow> string \<Rightarrow> string" where
  "Values_Get q key = (case q key of None \<Rightarrow> '''' | Some [] \<Rightarrow> '''' | Some (v # _) \<Rightarrow> v)"

text \<open>
  The \<^verbatim>\<open>valuePtr\<close> of an \<^verbatim>\<open>ObjectArg\<close> is a pointer that the closure keeps and every
  request shares. A pointer is an address, and the store gives the object each address
  holds. \<^verbatim>\<open>valuePtr\<close> is taken to be a non-nil pointer.
\<close>

type_synonym 'o store = "nat \<Rightarrow> 'o"

subsection \<open>Arg and its constructors\<close>

text \<open>
  \<^verbatim>\<open>type Arg struct { Name string; Value, Control interface{}; Get func(q url.Values) interface{} }\<close>.
  \<open>Get\<close> takes the store and returns it, since the closure of \<open>ObjectArg\<close> writes
  through its pointer.
\<close>

record 'o Arg =
  Name :: string
  Value :: "'o val"
  Control :: "'o val"
  Get :: "Values \<Rightarrow> 'o store \<Rightarrow> 'o val \<times> 'o store"

text \<open>
  \<^verbatim>\<open>json.Unmarshal(data, valuePtr)\<close> is a parameter \<open>U\<close>: applied to the bytes and to the
  object the pointer holds, it tells whether the error it returns is non-nil, and gives
  the object the pointer holds afterwards. The closure drops the error and returns what
  the pointer holds.
\<close>

type_synonym 'o Unmarshal = "string \<Rightarrow> 'o \<Rightarrow> bool \<times> 'o"

definition ObjectArg :: "'o Unmarshal \<Rightarrow> string \<Rightarrow> 'o val \<Rightarrow> nat \<Rightarrow> 'o Arg" where
  "ObjectArg U name v valuePtr =
     \<lparr>Name = name, Value = v, Control = VString ''object'',
      Get = (\<lambda>q st.
        (let (err, tgt) = U (Values_Get q name) (st valuePtr);
             st' = st(valuePtr := tgt)
         in (VObject (st' valuePtr), st')))\<rparr>"

definition TextArg :: "string \<Rightarrow> string \<Rightarrow> 'o Arg" where
  "TextArg name v =
     \<lparr>Name = name, Value = VString v, Control = VString ''text'',
      Get = (\<lambda>q st. (VString (Values_Get q name), st))\<rparr>"

definition BooleanArg :: "string \<Rightarrow> bool \<Rightarrow> 'o Arg" where
  "BooleanArg name v =
     \<lparr>Name = name, Value = VBool v, Control = VString ''boolean'',
      Get = (\<lambda>q st. (VBool (Values_Get q name = ''true''), st))\<rparr>"

subsubsection \<open>strconv.ParseInt\<close>

text \<open>
  \<open>IntArg\<close> calls \<^verbatim>\<open>strconv.ParseInt(s, 10, 64)\<close> of the Go standard library. The model
  follows the library's code for base 10 and 64 bits. A \<^verbatim>\<open>uint64\<close> is a \<open>nat\<close> below
  \<open>2 ^ 64\<close> and an \<^verbatim>\<open>int64\<close> is an \<open>int\<close>, with the wrap-around written out.
\<close>

datatype NumError = ErrSyntax | ErrRange

definition maxUint64 :: nat where
  "maxUint64 = 2 ^ 64 - 1"

definition is_digit :: "char \<Rightarrow> bool" where
  "is_digit c = (48 \<le> (of_char c :: nat) \<and> (of_char c :: nat) \<le> 57)"

definition digit_val :: "char \<Rightarrow> nat" where
  "digit_val c = of_char c - 48"

text \<open>
  The loop of \<^verbatim>\<open>ParseUint\<close> over the bytes, \<open>n\<close> the number read so far. A byte that is
  no decimal digit is a syntax error (a letter is a digit of a larger base, refused as
  \<^verbatim>\<open>d >= base\<close>). Overflow returns at once, before the bytes that follow are looked at.
\<close>

fun ParseUint_loop :: "nat \<Rightarrow> string \<Rightarrow> nat \<times> NumError option" where
  "ParseUint_loop n [] = (n, None)"
| "ParseUint_loop n (c # cs) =
     (if \<not> is_digit c then (0, Some ErrSyntax)
      else if n \<ge> maxUint64 div 10 + 1 then (maxUint64, Some ErrRange)
      else (let n' = (n * 10) mod 2 ^ 64;
                n1 = (n' + digit_val c) mod 2 ^ 64
            in if n1 < n' \<or> n1 > maxUint64 then (maxUint64, Some ErrRange)
               else ParseUint_loop n1 cs))"

definition ParseUint :: "string \<Rightarrow> nat \<times> NumError option" where
  "ParseUint s = (if s = '''' then (0, Some ErrSyntax) else ParseUint_loop 0 s)"

text \<open>The conversion \<^verbatim>\<open>int64(x)\<close>: the value of the low 64 bits, read as signed.\<close>

definition int64 :: "int \<Rightarrow> int" where
  "int64 x = (x + 2 ^ 63) mod 2 ^ 64 - 2 ^ 63"

definition ParseInt :: "string \<Rightarrow> int \<times> NumError option" where
  "ParseInt s =
     (case s of
        [] \<Rightarrow> (0, Some ErrSyntax)
      | c # cs \<Rightarrow>
          (let (neg, s1) =
                 (if c = CHR ''+'' then (False, cs)
                  else if c = CHR ''-'' then (True, cs)
                  else (False, s));
               (un, err) = ParseUint s1
           in if err \<noteq> None \<and> err \<noteq> Some ErrRange then (0, err)
              else (let cutoff = (2 ^ 63 :: nat)
                    in if \<not> neg \<and> un \<ge> cutoff then (int64 (int (cutoff - 1)), Some ErrRange)
                       else if neg \<and> un > cutoff then (int64 (- int64 (int cutoff)), Some ErrRange)
                       else (let n = int64 (int un);
                                 n = (if neg then int64 (- n) else n)
                             in (n, None)))))"

text \<open>
  \<^verbatim>\<open>type IntArgConf struct{ Min, Max, Step *int }\<close>: a nil pointer is \<open>None\<close>. The fields
  carry the suffix \<open>Ptr\<close>, \<open>Min\<close> and \<open>Max\<close> being constants of HOL.
\<close>

record IntArgConf =
  MinPtr :: "int option"
  MaxPtr :: "int option"
  StepPtr :: "int option"

text \<open>
  The closure of \<open>IntArg\<close> drops the error of \<open>ParseInt\<close> and converts the \<^verbatim>\<open>int64\<close> to
  \<^verbatim>\<open>int\<close>, which has 64 bits on the platforms considered.
\<close>

definition IntArg :: "string \<Rightarrow> int \<Rightarrow> IntArgConf \<Rightarrow> 'o Arg" where
  "IntArg name v conf =
     (let control = [(''type'', VString ''number'')];
          control = (case MinPtr conf of None \<Rightarrow> control | Some m \<Rightarrow> control @ [(''min'', VInt m)]);
          control = (case MaxPtr conf of None \<Rightarrow> control | Some m \<Rightarrow> control @ [(''max'', VInt m)]);
          control = (case StepPtr conf of None \<Rightarrow> control | Some m \<Rightarrow> control @ [(''step'', VInt m)])
      in \<lparr>Name = name, Value = VInt v, Control = VMap control,
          Get = (\<lambda>q st. (let (i, _) = ParseInt (Values_Get q name) in (VInt (int64 i), st)))\<rparr>)"

subsection \<open>NewConf and AddStory\<close>

text \<open>
  \<open>AddStory\<close> fills a fresh map \<open>m\<close> from the arguments and then stores another fresh map
  in the story.
\<close>

definition AddStory :: "'o Conf \<Rightarrow> string \<Rightarrow> 'o Arg list \<Rightarrow> 'o Conf" where
  "AddStory c name args =
     (let m = NewSortedMap;
          m = foldl (\<lambda>m arg. Add m (Name arg) (Value arg)) m args
      in c\<lparr>Stories := Stories c @ [\<lparr>StoryName = name, StoryArgs = NewSortedMap\<rparr>]\<rparr>)"

definition NewConf :: "string \<Rightarrow> 'o Arg list \<Rightarrow> 'o Conf" where
  "NewConf title args =
     (let c = \<lparr>Title = title,
               Parameters = \<lparr>Server = [''id'' \<mapsto> VString title]\<rparr>,
               Args = NewSortedMap,
               ArgTypes = NewSortedMap,
               Stories = []\<rparr>;
          c = foldl (\<lambda>c arg.
                c\<lparr>Args := Add (Args c) (Name arg) (Value arg),
                  ArgTypes := Add (ArgTypes c) (Name arg) (VMap [(''control'', Control arg)])\<rparr>)
                c args
      in AddStory c ''Default'' [])"

subsection \<open>Errors and formatting\<close>

text \<open>
  A Go \<^verbatim>\<open>error\<close> built by \<^verbatim>\<open>fmt.Errorf\<close> is \<open>Error\<close> with its text. \<open>Panic\<close> stands for a
  call that panics instead of returning.
\<close>

datatype error = Error string | Panic

definition digit_char :: "nat \<Rightarrow> char" where
  "digit_char n = ''0123456789abcdef'' ! n"

text \<open>The verb \<^verbatim>\<open>%d\<close> on a length, and the digits of \<^verbatim>\<open>%x\<close>.\<close>

fun fmt_d :: "nat \<Rightarrow> string" where
  "fmt_d n = (if n < 10 then [digit_char n] else fmt_d (n div 10) @ [digit_char (n mod 10)])"

fun fmt_x :: "nat \<Rightarrow> string" where
  "fmt_x n = (if n < 16 then [digit_char n] else fmt_x (n div 16) @ [digit_char (n mod 16)])"

declare fmt_d.simps [simp del]
declare fmt_x.simps [simp del]

subsection \<open>The dispatcher\<close>

text \<open>
  What \<open>executeTemplate\<close> reads of the constructor \<^verbatim>\<open>fn\<close> through \<^verbatim>\<open>reflect\<close>: the
  text of its type, its code pointer, the number of its parameters, and what a call
  returns (\<open>None\<close> when \<^verbatim>\<open>reflect.Value.Call\<close> or the constructor panics). \<^verbatim>\<open>fn\<close> is
  taken to be a function value.
\<close>

record 'o Func =
  TypeString :: string
  Pointer :: nat
  NumIn :: nat
  Call :: "'o val list \<Rightarrow> 'o val list option"

text \<open>
  The verb \<^verbatim>\<open>%s\<close> applied to a function value: \<^verbatim>\<open>fmt\<close> knows no such verb for a function
  and prints \<^verbatim>\<open>%!s(\<close>, the type, \<^verbatim>\<open>=\<close>, the value under \<^verbatim>\<open>%v\<close> (the code pointer in
  hexadecimal, or \<^verbatim>\<open><nil>\<close>) and \<^verbatim>\<open>)\<close>.
\<close>

definition fmt_v_Func :: "'o Func \<Rightarrow> string" where
  "fmt_v_Func fn = (if Pointer fn = 0 then ''<nil>'' else ''0x'' @ fmt_x (Pointer fn))"

definition fmt_s_Func :: "'o Func \<Rightarrow> string" where
  "fmt_s_Func fn = ''%!s('' @ TypeString fn @ ''='' @ fmt_v_Func fn @ '')''"

text \<open>
  \<open>executeTemplate\<close> returns its result and the calls it made to \<^verbatim>\<open>fn\<close>, each call
  being the list of its arguments. The first message formats \<^verbatim>\<open>fn\<close>, the other two
  \<^verbatim>\<open>name\<close>.
\<close>

definition executeTemplate ::
  "string \<Rightarrow> 'o Func \<Rightarrow> 'o val list \<Rightarrow> (error + Component) \<times> 'o val list list" where
  "executeTemplate name fn values =
     (let argv_len = NumIn fn in
      if argv_len \<noteq> length values then
        (Inl (Error (''templ-storybook: component '' @ fmt_s_Func fn @ '' expects ''
                     @ fmt_d argv_len @ '' argument, but '' @ fmt_d (length values)
                     @ '' were provided'')), [])
      else
        (let argv = values in
         case Call fn argv of
           None \<Rightarrow> (Inl Panic, [argv])
         | Some result \<Rightarrow>
             if length result \<noteq> 1 then
               (Inl (Error (''templ-storybook: function '' @ name
                            @ '' must return a templ.Component'')), [argv])
             else
               (case result ! 0 of
                  VComponent output \<Rightarrow> (Inr output, [argv])
                | _ \<Rightarrow>
                  (Inl (Error (''templ-storybook: result of function '' @ name
                               @ '' is not a templ.Component'')), [argv]))))"

subsection \<open>HTTP handlers\<close>

text \<open>
  A request is the path of its URL and the parsed query. A handler writes a response
  (status and body; headers are left out) or panics, and may write through the pointers
  of its arguments.
\<close>

record Request =
  URL_Path :: string
  URL_Query :: Values

record Response =
  status :: nat
  body :: string

datatype outcome = Responded Response | Panicked

type_synonym 'o Handler = "Request \<Rightarrow> 'o store \<Rightarrow> outcome \<times> 'o store"

text \<open>
  \<^verbatim>\<open>http.Error\<close> of the standard library writes the status and the text, ended by a
  newline; \<^verbatim>\<open>http.NotFound\<close> calls it.
\<close>

definition http_Error :: "string \<Rightarrow> nat \<Rightarrow> Response" where
  "http_Error e code = \<lparr>status = code, body = e @ ''\<newline>''\<rparr>"

definition http_NotFound :: Response where
  "http_NotFound = http_Error ''404 page not found'' 404"

text \<open>
  Modelled from the spec: \<^verbatim>\<open>templ.Handler(component).ServeHTTP\<close>, of the root package of
  the repository, "streams the renderable component's output to the response body with a
  200 status".
\<close>

definition templ_Handler :: "Component \<Rightarrow> Response" where
  "templ_Handler component = \<lparr>status = 200, body = Render component\<rparr>"

text \<open>The loop \<^verbatim>\<open>for i, arg := range args { argv[i] = arg.Get(q) }\<close>.\<close>

fun NewHandler_argv :: "'o Arg list \<Rightarrow> Values \<Rightarrow> 'o store \<Rightarrow> 'o val list \<times> 'o store" where
  "NewHandler_argv [] q st = ([], st)"
| "NewHandler_argv (arg # args) q st =
     (let (v, st1) = Get arg q st;
          (vs, st2) = NewHandler_argv args q st1
      in (v # vs, st2))"

definition NewHandler :: "string \<Rightarrow> 'o Func \<Rightarrow> 'o Arg list \<Rightarrow> 'o Handler" where
  "NewHandler name f args =
     (\<lambda>r st.
        (let q = URL_Query r;
             (argv, st') = NewHandler_argv args q st
         in case fst (executeTemplate name f argv) of
              Inl (Error e) \<Rightarrow> (Responded (http_Error e 500), st')
            | Inl Panic \<Rightarrow> (Panicked, st')
            | Inr component \<Rightarrow> (Responded (templ_Handler component), st')))"

subsection \<open>Storybook\<close>

text \<open>
  The fields of \<^verbatim>\<open>Storybook\<close> the registry and the router use; the static handler, the
  server and the logger are left out.
\<close>

record 'o Storybook =
  Path :: string
  RoutePrefix :: string
  Config :: "string \<rightharpoonup> 'o Conf"
  Handlers :: "string \<rightharpoonup> 'o Handler"

definition New :: "('o Storybook \<Rightarrow> 'o Storybook) list \<Rightarrow> 'o Storybook" where
  "New conf =
     (let sh = \<lparr>Path = ''./storybook-server'', RoutePrefix = '''',
                Config = Map.empty, Handlers = Map.empty\<rparr>
      in foldl (\<lambda>sh sc. sc sh) sh conf)"

definition AddComponent ::
  "'o Storybook \<Rightarrow> string \<Rightarrow> 'o Func \<Rightarrow> 'o Arg list \<Rightarrow> 'o Storybook" where
  "AddComponent sh name componentConstructor args =
     (let c = NewConf name args;
          sh = sh\<lparr>Config := (Config sh)(name \<mapsto> c)\<rparr>;
          h = NewHandler name componentConstructor args
      in sh\<lparr>Handlers := (Handlers sh)(name \<mapsto> h)\<rparr>)"

text \<open>
  \<^verbatim>\<open>storybookPreviewMatcher.Extract\<close>, of the package \<^verbatim>\<open>pathvars\<close>, is a parameter \<open>X\<close>:
  applied to the URL of the request it gives the variables of the pattern
  \<^verbatim>\<open>/storybook_preview/{name}\<close>, or \<open>None\<close> when the URL does not match.
\<close>

type_synonym Extract = "Request \<Rightarrow> (string \<rightharpoonup> string) option"

definition previewHandler :: "Extract \<Rightarrow> 'o Storybook \<Rightarrow> 'o Handler" where
  "previewHandler X sh =
     (\<lambda>r st.
        case X r of
          None \<Rightarrow> (Responded http_NotFound, st)
        | Some values \<Rightarrow>
            (case values ''name'' of
               None \<Rightarrow> (Responded http_NotFound, st)
             | Some name \<Rightarrow>
                 (case Handlers sh name of
                    None \<Rightarrow> (Responded http_NotFound, st)
                  | Some h \<Rightarrow> h r st)))"

subsection \<open>path.Join\<close>

text \<open>
  \<open>configureStorybook\<close> names its directory and its files with \<^verbatim>\<open>path.Join\<close> of the Go
  standard library, which joins the elements with a slash and cleans the result. The
  model follows the library's code for \<^verbatim>\<open>path.Clean\<close>: \<open>p\<close> is the part of the path still
  to read, \<open>out\<close> the bytes written so far, \<open>dotdot\<close> the length below which \<open>out\<close> cannot
  be cut back.
\<close>

text \<open>
  The backtracking of \<^verbatim>\<open>Clean\<close> over the last element of \<open>out\<close>:
  \<^verbatim>\<open>for out.w > dotdot && out.index(out.w) != '/' { out.w-- }\<close>.
\<close>

function path_Clean_back :: "string \<Rightarrow> nat \<Rightarrow> nat \<Rightarrow> nat" where
  "path_Clean_back out dotdot w =
     (if w > dotdot \<and> out ! w \<noteq> CHR ''/'' then path_Clean_back out dotdot (w - 1) else w)"
  by pat_completeness auto
termination
  by (relation "measure (\<lambda>(out, dotdot, w). w)") auto

declare path_Clean_back.simps [simp del]

function path_Clean_loop :: "bool \<Rightarrow> string \<Rightarrow> string \<Rightarrow> nat \<Rightarrow> string" where
  "path_Clean_loop rooted [] out dotdot = out"
| "path_Clean_loop rooted (c # p) out dotdot =
     (if c = CHR ''/'' then path_Clean_loop rooted p out dotdot
      else if c = CHR ''.'' \<and> (p = [] \<or> hd p = CHR ''/'') then
        path_Clean_loop rooted p out dotdot
      else if c = CHR ''.'' \<and> p \<noteq> [] \<and> hd p = CHR ''.'' \<and>
              (tl p = [] \<or> hd (tl p) = CHR ''/'') then
        (if length out > dotdot then
           path_Clean_loop rooted (tl p)
             (take (path_Clean_back out dotdot (length out - 1)) out) dotdot
         else if \<not> rooted then
           (let out' = (if length out > 0 then out @ ''/'' else out) @ ''..''
            in path_Clean_loop rooted (tl p) out' (length out'))
         else path_Clean_loop rooted (tl p) out dotdot)
      else
        (let out' = (if rooted \<and> length out \<noteq> 1 \<or> \<not> rooted \<and> length out \<noteq> 0
                     then out @ ''/'' else out)
         in path_Clean_loop rooted (dropWhile (\<lambda>x. x \<noteq> CHR ''/'') p)
              (out' @ c # takeWhile (\<lambda>x. x \<noteq> CHR ''/'') p) dotdot))"
  by pat_completeness auto
termination
  by (relation "measure (\<lambda>(rooted, p, out, dotdot). length p)")
     (auto simp: less_Suc_eq_le length_dropWhile_le intro: le_trans [OF diff_le_self])

definition path_Clean :: "string \<Rightarrow> string" where
  "path_Clean path =
     (if path = '''' then ''.''
      else
        (let rooted = (hd path = CHR ''/'');
             out = (if rooted then path_Clean_loop rooted (tl path) ''/'' 1
                    else path_Clean_loop rooted path '''' 0)
         in if out = '''' then ''.'' else out))"

text \<open>\<^verbatim>\<open>path.Join\<close> of two elements: an empty first element is skipped.\<close>

definition path_Join :: "string \<Rightarrow> string \<Rightarrow> string" where
  "path_Join a b =
     (if length a + length b = 0 then ''''
      else path_Clean (if a = '''' then b else a @ ''/'' @ b))"

subsection \<open>The build pipeline\<close>

text \<open>
  The pipeline works on files and runs commands. The world holds what it can change: the
  content of each file by its path, whether the stories directory exists, the preview
  script, the commands run so far and the messages logged so far. A file is known by its
  cleaned path (the file system has no links and tells names apart in every byte), and
  the files of a directory are those whose path begins with the path of the directory and
  a slash.
\<close>

record World =
  files :: "string \<rightharpoonup> string"
  stories_exists :: bool
  preview_js :: "string option"
  commands :: "string list list"
  logged :: "string list"

definition within_dir :: "string \<Rightarrow> string \<Rightarrow> bool" where
  "within_dir dir p = (take (length dir + 1) p = dir @ ''/'')"

text \<open>An error of the operating system: its text, and what \<^verbatim>\<open>os.IsNotExist\<close> says of it.\<close>

datatype oserr = OSError (IsNotExist: bool) (errText: string)

text \<open>
  The other functions of libraries the pipeline calls are parameters: the hash
  \<^verbatim>\<open>dirhash.DefaultHash\<close> of the files of a directory, \<^verbatim>\<open>strconv.Quote\<close> behind the verb
  \<^verbatim>\<open>%q\<close>, and \<^verbatim>\<open>json.Encoder.Encode\<close> on a configuration (the text written, or the
  error).
\<close>

record 'o Lib =
  DefaultHash :: "(string \<rightharpoonup> string) \<Rightarrow> string"
  Quote :: "string \<Rightarrow> string"
  Encode_Conf :: "'o Conf \<Rightarrow> oserr + string"

text \<open>
  What one run of the pipeline meets: the error of each system call (\<open>None\<close> when the
  call succeeds), the error and the effect on the files of each command, the order in
  which \<^verbatim>\<open>range sh.Config\<close> visits the keys (Go leaves it open), and whether
  \<^verbatim>\<open>ctx.Err()\<close> is non-nil at the first, second and third check of \<open>Build\<close>.
\<close>

record Os =
  Stat_Path :: "oserr option"
  Mkdir_Path :: "oserr option"
  LookPath_npx :: "oserr option"
  Run_init :: "World \<Rightarrow> oserr option \<times> World"
  HashDir_before :: "oserr option"
  RemoveAll_stories :: "oserr option"
  Mkdir_stories :: "oserr option"
  Create_file :: "string \<Rightarrow> oserr option"
  HashDir_after :: "oserr option"
  WriteFile_preview :: "oserr option"
  LookPath_npm :: "oserr option"
  Run_build :: "World \<Rightarrow> oserr option \<times> World"
  range_Config :: "string list"
  ctx_Err :: "nat \<Rightarrow> bool"

definition Log_Info :: "World \<Rightarrow> string \<Rightarrow> World" where
  "Log_Info w m = w\<lparr>logged := logged w @ [m]\<rparr>"

text \<open>
  \<^verbatim>\<open>cmd.Run()\<close>: the command is recorded, its effect on the files is applied, and its
  error is returned as it is.
\<close>

definition cmd_Run ::
  "(World \<Rightarrow> oserr option \<times> World) \<Rightarrow> string list \<Rightarrow> World \<Rightarrow> error option \<times> World" where
  "cmd_Run R cmd_Args w =
     (let (e, w') = R w
      in (map_option (\<lambda>e. Error (errText e)) e,
          w'\<lparr>commands := commands w @ [cmd_Args], logged := logged w\<rparr>))"

definition installStorybook :: "Os \<Rightarrow> World \<Rightarrow> error option \<times> World" where
  "installStorybook os w =
     (case Stat_Path os of
        None \<Rightarrow> (None, Log_Info w ''Storybook already installed, Skipping installation.'')
      | Some err \<Rightarrow>
          (case (if IsNotExist err then Mkdir_Path os else None) of
             Some e \<Rightarrow>
               (Some (Error (''templ-storybook: error creating @storybook/server directory: ''
                             @ errText e)), w)
           | None \<Rightarrow>
               (case LookPath_npx os of
                  Some e \<Rightarrow>
                    (Some (Error (''templ-storybook: cannot install storybook, cannot find npx on the path, check that Node.js is installed: ''
                                  @ errText e)), w)
                | None \<Rightarrow> cmd_Run (Run_init os) [''npx'', ''sb'', ''init'', ''-t'', ''server''] w)))"

text \<open>
  \<^verbatim>\<open>dirhash.HashDir\<close> on the directory \<open>dir\<close>, the stories directory: the error met if
  any, an error that \<^verbatim>\<open>os.IsNotExist\<close> accepts when the directory does not exist, else the
  hash of the files of the directory. With an error the hash is the empty string.
\<close>

definition HashDir :: "'o Lib \<Rightarrow> oserr option \<Rightarrow> string \<Rightarrow> World \<Rightarrow> string \<times> oserr option" where
  "HashDir lib fault dir w =
     (case fault of
        Some e \<Rightarrow> ('''', Some e)
      | None \<Rightarrow>
          if \<not> stories_exists w then ('''', Some (OSError True ''no such file or directory''))
          else (DefaultHash lib (files w |` {p. within_dir dir p}), None))"

definition previewJS :: string where
  \<open>previewJS = ''\<newline>// Customise fetch so that it uses a relative URL.\<newline>const fetchStoryHtml = async (url, path, params, context) => {\<newline>  const qs = new URLSearchParams(params);\<newline>  const response = await fetch("/storybook_preview/" + path + "?" + qs.toString());\<newline>  return response.text();\<newline>};\<newline>\<newline>export const parameters = {\<newline>  server: {\<newline>    url: "http://localhost/storybook_preview", // Ignored by fetchStoryHtml.\<newline>    fetchStoryHtml,\<newline>  },\<newline>};\<newline>''\<close>

text \<open>
  The loop of \<open>configureStorybook\<close> over the configurations: \<^verbatim>\<open>os.Create\<close> leaves an
  empty file at the path \<^verbatim>\<open>name\<close>, truncating the file that was there, and \<^verbatim>\<open>Encode\<close>
  fills it. The loop returns the error that ends it early.
\<close>

fun configureStorybook_loop ::
  "'o Lib \<Rightarrow> Os \<Rightarrow> 'o Storybook \<Rightarrow> 'o Conf list \<Rightarrow> World \<Rightarrow> error option \<times> World" where
  "configureStorybook_loop lib os sh [] w = (None, w)"
| "configureStorybook_loop lib os sh (c # cs) w =
     (let name = path_Join (Path sh) (''stories/'' @ Title c @ ''.stories.json'')
      in case Create_file os name of
           Some e \<Rightarrow>
             (Some (Error (''failed to create config file to '' @ Quote lib name @ '': ''
                           @ errText e)), w)
         | None \<Rightarrow>
             (let w1 = w\<lparr>files := (files w)(name \<mapsto> '''')\<rparr>
              in case Encode_Conf lib c of
                   Inl e \<Rightarrow>
                     (Some (Error (''failed to write JSON config to '' @ Quote lib name @ '': ''
                                   @ errText e)), w1)
                 | Inr s \<Rightarrow>
                     configureStorybook_loop lib os sh cs (w\<lparr>files := (files w)(name \<mapsto> s)\<rparr>)))"

text \<open>
  \<open>configureStorybook\<close> returns \<^verbatim>\<open>configHasChanged\<close>, the error and the world. The error
  of the second \<open>HashDir\<close> is overwritten by that of \<^verbatim>\<open>os.WriteFile\<close>. \<^verbatim>\<open>os.RemoveAll\<close>
  removes the directory and the files in it; when it fails it is taken to leave them as
  they were. The preview script lies outside the stories directory and has a field of its
  own.
\<close>

definition configureStorybook ::
  "'o Lib \<Rightarrow> Os \<Rightarrow> 'o Storybook \<Rightarrow> World \<Rightarrow> bool \<times> error option \<times> World" where
  "configureStorybook lib os sh w =
     (let configHasChanged = False;
          storiesDir = path_Join (Path sh) ''stories'';
          (before, err) = HashDir lib (HashDir_before os) storiesDir w
      in if err \<noteq> None \<and> \<not> IsNotExist (the err) then
           (configHasChanged, map_option (\<lambda>e. Error (errText e)) err, w)
         else
           (case RemoveAll_stories os of
              Some e \<Rightarrow> (configHasChanged, Some (Error (errText e)), w)
            | None \<Rightarrow>
                (let w = w\<lparr>files := files w |` {p. \<not> within_dir storiesDir p},
                           stories_exists := False\<rparr> in
                 case Mkdir_stories os of
                   Some e \<Rightarrow> (configHasChanged, Some (Error (errText e)), w)
                 | None \<Rightarrow>
                     (let w = w\<lparr>stories_exists := True\<rparr> in
                      case configureStorybook_loop lib os sh
                             (List.map_filter (Config sh) (range_Config os)) w of
                        (Some e, w) \<Rightarrow> (configHasChanged, Some e, w)
                      | (None, w) \<Rightarrow>
                          (let (after, err) = HashDir lib (HashDir_after os) storiesDir w;
                               configHasChanged = (before \<noteq> after)
                           in case WriteFile_preview os of
                                Some e \<Rightarrow> (configHasChanged, Some (Error (errText e)), w)
                              | None \<Rightarrow>
                                  (configHasChanged, None,
                                   w\<lparr>preview_js := Some previewJS\<rparr>))))))"

definition buildStorybook :: "Os \<Rightarrow> World \<Rightarrow> error option \<times> World" where
  "buildStorybook os w =
     (case LookPath_npm os of
        Some e \<Rightarrow>
          (Some (Error (''templ-storybook: cannot run storybook, cannot find npm on the path, check that Node.js is installed: ''
                        @ errText e)), w)
      | None \<Rightarrow> cmd_Run (Run_build os) [''npm'', ''run'', ''build-storybook''] w)"

text \<open>
  \<open>Build\<close> returns its error and the world. The result of \<open>buildStorybook\<close> is not
  assigned to \<^verbatim>\<open>err\<close>.
\<close>

definition Build :: "'o Lib \<Rightarrow> Os \<Rightarrow> 'o Storybook \<Rightarrow> World \<Rightarrow> error option \<times> World" where
  "Build lib os sh w =
     (let w = Log_Info w ''Installing storybook.'';
          (err, w) = installStorybook os w
      in if err \<noteq> None then (err, w)
         else if ctx_Err os 1 then (err, w)
         else
           (let w = Log_Info w ''Configuring storybook.'';
                (configHasChanged, err, w) = configureStorybook lib os sh w
            in if err \<noteq> None then (err, w)
               else if ctx_Err os 2 then (err, w)
               else
                 (let w = (if configHasChanged then
                             (let w = Log_Info w ''Config not present, or has changed, rebuilding storybook.''
                              in snd (buildStorybook os w))
                           else Log_Info w ''Storybook is up-to-date, skipping build step.'')
                  in if ctx_Err os 3 then (err, w) else (err, w))))"

subsection \<open>Notions used in the statements\<close>

text \<open>What an \<open>Encode\<close> call writes: nothing when it fails.\<close>

definition written :: "string option \<Rightarrow> string" where
  "written r = (case r of None \<Rightarrow> [] | Some s \<Rightarrow> s)"

text \<open>
  The member of the object literal for the key \<open>k\<close>: the encoded key, a colon and the
  encoded value the map holds for \<open>k\<close>.
\<close>

definition member_text :: "'o Encode \<Rightarrow> 'o SortedMap \<Rightarrow> string \<Rightarrow> string" where
  "member_text E sm k = written (E (VString k)) @ '':'' @ written (E (index_internal sm k))"

fun join_comma :: "string list \<Rightarrow> string" where
  "join_comma [] = ''''"
| "join_comma [x] = x"
| "join_comma (x # y # ys) = x @ '','' @ join_comma (y # ys)"

text \<open>
  The number the decimal digits \<open>cs\<close> denote when read after the number \<open>n\<close>; with
  \<open>n = 0\<close>, the number the digits denote.
\<close>

definition decimal :: "nat \<Rightarrow> string \<Rightarrow> nat" where
  "decimal n cs = foldl (\<lambda>n c. n * 10 + digit_val c) n cs"

subsection \<open>Example inputs\<close>

text \<open>
  A constructor \<^verbatim>\<open>func(string) templ.Component\<close>, one that returns two values, one
  that returns a string, and one that panics.
\<close>

definition button_fn :: "unit Func" where
  "button_fn =
     \<lparr>TypeString = ''func(string) templ.Component'', Pointer = 4873504, NumIn = 1,
      Call = (\<lambda>argv. case argv of
                [VString s] \<Rightarrow> Some [VComponent (Component (''<button>'' @ s @ ''</button>''))]
              | _ \<Rightarrow> None)\<rparr>"

definition two_results_fn :: "unit Func" where
  "two_results_fn =
     \<lparr>TypeString = ''func(string) (templ.Component, error)'', Pointer = 4873600, NumIn = 1,
      Call = (\<lambda>argv. Some [VComponent (Component ''<p></p>''), VNil])\<rparr>"

definition string_fn :: "unit Func" where
  "string_fn =
     \<lparr>TypeString = ''func(string) string'', Pointer = 4873696, NumIn = 1,
      Call = (\<lambda>argv. Some [VString ''<p></p>''])\<rparr>"

definition panic_fn :: "unit Func" where
  "panic_fn =
     \<lparr>TypeString = ''func() templ.Component'', Pointer = 4873792, NumIn = 0,
      Call = (\<lambda>argv. None)\<rparr>"

text \<open>
  \<^verbatim>\<open>json.Unmarshal\<close> into a \<^verbatim>\<open>*bool\<close>: around the value JSON allows spaces, tabs, carriage
  returns and newlines; \<^verbatim>\<open>true\<close> and \<^verbatim>\<open>false\<close> are stored, \<^verbatim>\<open>null\<close> is accepted and
  nothing is stored, and on every other input, malformed or of another JSON type, an error
  is returned and nothing is stored.
\<close>

definition json_isSpace :: "char \<Rightarrow> bool" where
  "json_isSpace c = (c = CHR '' '' \<or> c = CHR 0x09 \<or> c = CHR 0x0D \<or> c = CHR 0x0A)"

definition json_trim :: "string \<Rightarrow> string" where
  "json_trim s = rev (dropWhile json_isSpace (rev (dropWhile json_isSpace s)))"

definition Unmarshal_bool :: "bool Unmarshal" where
  "Unmarshal_bool data b =
     (let t = json_trim data
      in if t = ''true'' then (False, True)
         else if t = ''false'' then (False, False)
         else if t = ''null'' then (False, b)
         else (True, b))"

text \<open>The requests of a sequence served one after the other by the \<open>Get\<close> of one argument.\<close>

fun Get_each :: "'o Arg \<Rightarrow> Values list \<Rightarrow> 'o store \<Rightarrow> 'o val list \<times> 'o store" where
  "Get_each arg [] st = ([], st)"
| "Get_each arg (q # qs) st =
     (let (v, st1) = Get arg q st;
          (vs, st2) = Get_each arg qs st1
      in (v # vs, st2))"

text \<open>
  The libraries, a run in which every call succeeds, one in which the command of the
  third stage fails, a registry with the component \<open>button\<close>, and a world without files.
\<close>

definition lib0 :: "unit Lib" where
  "lib0 =
     \<lparr>DefaultHash = (\<lambda>files. case files ''storybook-server/stories/button.stories.json'' of
                        None \<Rightarrow> ''h1:none'' | Some s \<Rightarrow> ''h1:'' @ s),
      Quote = (\<lambda>s. [CHR 0x22] @ s @ [CHR 0x22]),
      Encode_Conf = (\<lambda>c. Inr (''title '' @ Title c))\<rparr>"

definition os_ok :: Os where
  "os_ok =
     \<lparr>Stat_Path = None, Mkdir_Path = None, LookPath_npx = None,
      Run_init = (\<lambda>w. (None, w)),
      HashDir_before = None, RemoveAll_stories = None, Mkdir_stories = None,
      Create_file = (\<lambda>name. None), HashDir_after = None, WriteFile_preview = None,
      LookPath_npm = None,
      Run_build = (\<lambda>w. (None, w)),
      range_Config = [''button''],
      ctx_Err = (\<lambda>n. False)\<rparr>"

definition os_build_fails :: Os where
  "os_build_fails = os_ok\<lparr>Run_build := (\<lambda>w. (Some (OSError False ''exit status 1''), w))\<rparr>"

definition sh_button :: "unit Storybook" where
  "sh_button = AddComponent (New []) ''button'' button_fn [TextArg ''text'' ''Click'']"

definition w0 :: World where
  "w0 = \<lparr>files = Map.empty, stories_exists = False, preview_js = None, commands = [],
          logged = []\<rparr>"

text \<open>
  An extractor for the examples: the path matches when it is \<^verbatim>\<open>/storybook_preview/\<close>
  followed by one segment, which is the name. Two more registries: one whose constructor
  panics, and one that registers \<open>button\<close> without its argument.
\<close>

definition X0 :: Extract where
  "X0 r =
     (let pre = ''/storybook_preview/'';
          seg = drop (length pre) (URL_Path r)
      in if take (length pre) (URL_Path r) = pre \<and> seg \<noteq> [] \<and> CHR ''/'' \<notin> set seg
         then Some [''name'' \<mapsto> seg] else None)"

definition sh_panic :: "unit Storybook" where
  "sh_panic = AddComponent (New []) ''boom'' panic_fn []"

definition sh_no_args :: "unit Storybook" where
  "sh_no_args = AddComponent (New []) ''button'' button_fn []"

text \<open>
  The registries the package builds: a new \<open>Storybook\<close>, and components added to it by
  \<open>AddComponent\<close>.
\<close>

inductive registered :: "'o Storybook \<Rightarrow> bool" where
  registered_New: "registered (New [])"
| registered_AddComponent: "registered sh \<Longrightarrow> registered (AddComponent sh name f args)"

text \<open>
  A run in which no system call of \<open>configureStorybook\<close> returns an error, and in which
  \<^verbatim>\<open>range sh.Config\<close> visits every key of the registry once.
\<close>

definition configure_calls_succeed :: "Os \<Rightarrow> bool" where
  "configure_calls_succeed os =
     (HashDir_before os = None \<and> RemoveAll_stories os = None \<and> Mkdir_stories os = None \<and>
      (\<forall>name. Create_file os name = None) \<and> HashDir_after os = None \<and>
      WriteFile_preview os = None)"

definition ranges_over :: "Os \<Rightarrow> 'o Storybook \<Rightarrow> bool" where
  "ranges_over os sh = (distinct (range_Config os) \<and> set (range_Config os) = dom (Config sh))"

text \<open>
  The path of the stories directory, the path of the file written for a title, and the
  path and the content of the file written for a configuration.
\<close>

definition storiesDir :: "'o Storybook \<Rightarrow> string" where
  "storiesDir sh = path_Join (Path sh) ''stories''"

definition story_path :: "'o Storybook \<Rightarrow> string \<Rightarrow> string" where
  "story_path sh title = path_Join (Path sh) (''stories/'' @ title @ ''.stories.json'')"

definition file_of :: "'o Lib \<Rightarrow> 'o Storybook \<Rightarrow> 'o Conf \<Rightarrow> string \<times> string" where
  "file_of lib sh c =
     (story_path sh (Title c), case Encode_Conf lib c of Inl e \<Rightarrow> '''' | Inr s \<Rightarrow> s)"

text \<open>
  The titles of the registry give files of different paths. Two titles can give one path:
  \<^verbatim>\<open>a\<close> and \<^verbatim>\<open>./a\<close> do.
\<close>

definition story_paths_differ :: "'o Storybook \<Rightarrow> bool" where
  "story_paths_differ sh = inj_on (story_path sh) (dom (Config sh))"

text \<open>The stories directory of a world: \<open>None\<close> when it does not exist, else its files.\<close>

definition stories_of :: "'o Storybook \<Rightarrow> World \<Rightarrow> (string \<rightharpoonup> string) option" where
  "stories_of sh w =
     (if stories_exists w then Some (files w |` {p. within_dir (storiesDir sh) p}) else None)"

text \<open>
  A registry with the components \<^verbatim>\<open>a\<close> and \<^verbatim>\<open>./a\<close>, a hash that tells the contents of
  their file apart, and two runs in which every call succeeds and \<^verbatim>\<open>range\<close> visits the two
  keys in the one order and in the other.
\<close>

definition sh_aliased :: "unit Storybook" where
  "sh_aliased = AddComponent (AddComponent (New []) ''a'' panic_fn []) ''./a'' panic_fn []"

definition lib_a :: "unit Lib" where
  "lib_a =
     lib0\<lparr>DefaultHash := (\<lambda>files. case files ''storybook-server/stories/a.stories.json'' of
                              None \<Rightarrow> ''h1:none'' | Some s \<Rightarrow> ''h1:'' @ s)\<rparr>"

definition os_a_first :: Os where
  "os_a_first = os_ok\<lparr>range_Config := [''a'', ''./a'']\<rparr>"

definition os_a_last :: Os where
  "os_a_last = os_ok\<lparr>range_Config := [''./a'', ''a'']\<rparr>"

text \<open>
  A registry with the components \<open>button\<close> and \<open>header\<close>, a hash that reads the two files,
  and two runs in which every call succeeds and \<^verbatim>\<open>range\<close> visits the two keys in the one
  order and in the other.
\<close>

definition sh_two :: "unit Storybook" where
  "sh_two =
     AddComponent (AddComponent (New []) ''button'' button_fn [TextArg ''text'' ''Click''])
       ''header'' button_fn [TextArg ''name'' ''World'']"

definition lib_two :: "unit Lib" where
  "lib_two =
     lib0\<lparr>DefaultHash := (\<lambda>files.
        ''h1:'' @ (case files ''storybook-server/stories/button.stories.json'' of
                     None \<Rightarrow> ''-'' | Some s \<Rightarrow> s)
        @ '';'' @ (case files ''storybook-server/stories/header.stories.json'' of
                     None \<Rightarrow> ''-'' | Some s \<Rightarrow> s))\<rparr>"

definition os_button_first :: Os where
  "os_button_first = os_ok\<lparr>range_Config := [''button'', ''header'']\<rparr>"

definition os_header_first :: Os where
  "os_header_first = os_ok\<lparr>range_Config := [''header'', ''button'']\<rparr>"

section \<open>Properties\<close>

subsection \<open>SortedMap\<close>

lemma Encode_into_written: "Encode_into E b v = b @ written (E v)"
  by (simp add: Encode_into_def written_def split: option.splits)

lemma join_comma_Cons: "join_comma (x # xs) = x @ (if xs = [] then [] else '','' @ join_comma xs)"
  by (cases xs) simp_all

lemma MarshalJSON_loop_eq:
  "i + length ks = length (keys sm) \<Longrightarrow>
   MarshalJSON_loop E sm i ks b = b @ join_comma (map (member_text E sm) ks)"
proof (induction ks arbitrary: i b)
  case Nil
  then show ?case by simp
next
  case (Cons k ks)
  have step: "Suc i + length ks = length (keys sm)" using Cons.prems by simp
  have comma: "(int i < int (length (keys sm)) - 1) = (ks \<noteq> [])"
    using Cons.prems by (cases ks) auto
  show ?case
    by (simp add: Let_def Cons.IH [OF step] comma join_comma_Cons member_text_def
        Encode_into_written del: join_comma.simps(2,3))
qed

lemma keys_AddAll: "keys (AddAll sm kvs) = keys sm @ map fst kvs"
  unfolding AddAll_def by (induction kvs arbitrary: sm) (auto simp: Add_def)

lemma internal_AddAll: "internal (AddAll sm kvs) = internal sm ++ map_of (rev kvs)"
  unfolding AddAll_def
  by (induction kvs arbitrary: sm) (auto simp: Add_def map_add_def fun_eq_iff split: option.splits)

text \<open>The value \<open>MarshalJSON\<close> reads for a key is the one added last under it.\<close>

lemma index_internal_AddAll:
  "index_internal (AddAll NewSortedMap kvs) k =
     (case map_of (rev kvs) k of None \<Rightarrow> VNil | Some v \<Rightarrow> v)"
  by (simp add: index_internal_def internal_AddAll NewSortedMap_def)

text \<open>
  C1. After any sequence of \<open>Add\<close> calls on a new map, also one in which a key repeats,
  \<open>MarshalJSON\<close> returns, with a nil error, an opening brace, one member for each call in
  the order of the calls, the members separated by commas, and a closing brace; the member
  of a call begins with the encoded key of that call.
\<close>

theorem MarshalJSON_keys_in_insertion_order:
  "MarshalJSON E (AddAll NewSortedMap kvs) =
     (''{'' @ join_comma (map (member_text E (AddAll NewSortedMap kvs)) (map fst kvs)) @ ''}'',
      None)"
  using MarshalJSON_loop_eq [of 0 "keys (AddAll NewSortedMap kvs)" "AddAll NewSortedMap kvs" E "''{''"]
  by (simp add: MarshalJSON_def keys_AddAll NewSortedMap_def)

text \<open>
  C9, as the claim states it, fails: \<open>Add\<close> appends the key whether or not the map holds
  it, so adding a key twice leaves it twice in \<open>keys\<close>.
\<close>

theorem keys_duplicate_counterexample:
  "\<not> distinct (keys (AddAll (NewSortedMap :: unit SortedMap) [(''a'', VInt 1), (''a'', VInt 2)]))"
  by (simp add: AddAll_def Add_def NewSortedMap_def)

text \<open>
  C9, amended. After any sequence of \<open>Add\<close> calls on a new map, \<open>keys\<close> is the sequence
  of the keys added, in the order of the calls and with every repetition, so it is free
  of duplicates exactly when no key was added twice; the keys in \<open>keys\<close> are the keys
  that have an entry in \<open>internal\<close>.
\<close>

theorem SortedMap_keys_invariant:
  "keys (AddAll NewSortedMap kvs) = map fst kvs \<and>
   distinct (keys (AddAll NewSortedMap kvs)) = distinct (map fst kvs) \<and>
   set (keys (AddAll NewSortedMap kvs)) = dom (internal (AddAll NewSortedMap kvs))"
proof -
  have k: "keys (AddAll NewSortedMap kvs) = map fst kvs"
    by (simp add: keys_AddAll NewSortedMap_def)
  have "dom (internal (AddAll NewSortedMap kvs)) = fst ` set kvs"
    by (simp add: internal_AddAll NewSortedMap_def dom_map_of_conv_image_fst)
  with k show ?thesis by simp
qed

subsection \<open>Stories\<close>

text \<open>
  C10. \<open>AddStory\<close> appends one story to the stories of the configuration and changes
  nothing else; the story has the name given, and its \<open>Args\<close> is a new, empty map
  whatever arguments are supplied.
\<close>

theorem AddStory_Args_empty:
  "AddStory c name args = c\<lparr>Stories := Stories c @ [\<lparr>StoryName = name, StoryArgs = NewSortedMap\<rparr>]\<rparr> \<and>
   StoryName (last (Stories (AddStory c name args))) = name \<and>
   keys (StoryArgs (last (Stories (AddStory c name args)))) = [] \<and>
   internal (StoryArgs (last (Stories (AddStory c name args)))) = Map.empty"
  by (simp add: AddStory_def Let_def NewSortedMap_def)

subsection \<open>The dispatcher\<close>

text \<open>
  C2. The code differs from the claim at the component \<open>button\<close>, whose constructor has
  one parameter, called with no argument value: the constructor is not called, and the
  error carries the two counts, but in the place of the name of the component it carries
  the constructor formatted with \<^verbatim>\<open>%s\<close>.
\<close>

theorem executeTemplate_arity_message:
  "executeTemplate ''button'' button_fn [] =
     (Inl (Error ''templ-storybook: component %!s(func(string) templ.Component=0x4a5d20) expects 1 argument, but 0 were provided''),
      [])"
  by (simp add: executeTemplate_def button_fn_def fmt_s_Func_def fmt_v_Func_def
      fmt_x.simps fmt_d.simps digit_char_def)

text \<open>The message of an arity mismatch does not depend on the name.\<close>

lemma executeTemplate_arity_nameless:
  "NumIn fn \<noteq> length values \<Longrightarrow> executeTemplate n1 fn values = executeTemplate n2 fn values"
  by (simp add: executeTemplate_def)

text \<open>
  C3. When the number of argument values is the number of parameters, \<open>executeTemplate\<close>
  returns a component exactly when the call of the constructor returns one value that is
  a component, and it is that component; when the call returns no value or more than one,
  or one value that is no component, it returns an error that names the component. The
  constructor is called once, with the argument values.
\<close>

theorem executeTemplate_result:
  assumes "NumIn fn = length values"
  shows
    "((fst (executeTemplate name fn values) = Inr c) = (Call fn values = Some [VComponent c])) \<and>
     (\<forall>rs. Call fn values = Some rs \<and> length rs \<noteq> 1 \<longrightarrow>
        fst (executeTemplate name fn values) =
          Inl (Error (''templ-storybook: function '' @ name @ '' must return a templ.Component''))) \<and>
     (\<forall>v. Call fn values = Some [v] \<and> (\<forall>c. v \<noteq> VComponent c) \<longrightarrow>
        fst (executeTemplate name fn values) =
          Inl (Error (''templ-storybook: result of function '' @ name @ '' is not a templ.Component''))) \<and>
     snd (executeTemplate name fn values) = [values]"
  using assms
  apply (simp add: executeTemplate_def split: option.splits val.splits)
  apply (auto simp: length_Suc_conv)
  done

theorem executeTemplate_result_witness:
  "NumIn button_fn = length [VString ''Hi''] \<and>
   fst (executeTemplate ''button'' button_fn [VString ''Hi'']) = Inr (Component ''<button>Hi</button>'') \<and>
   NumIn two_results_fn = length [VString ''Hi''] \<and>
   fst (executeTemplate ''pair'' two_results_fn [VString ''Hi'']) =
     Inl (Error ''templ-storybook: function pair must return a templ.Component'') \<and>
   NumIn string_fn = length [VString ''Hi''] \<and>
   fst (executeTemplate ''text'' string_fn [VString ''Hi'']) =
     Inl (Error ''templ-storybook: result of function text is not a templ.Component'')"
proof -
  have h1: "NumIn button_fn = length [VString ''Hi'' :: unit val]" by (simp add: button_fn_def)
  have h2: "NumIn two_results_fn = length [VString ''Hi'' :: unit val]" by (simp add: two_results_fn_def)
  have h3: "NumIn string_fn = length [VString ''Hi'' :: unit val]" by (simp add: string_fn_def)
  have c1: "Call button_fn [VString ''Hi''] = Some [VComponent (Component ''<button>Hi</button>'')]"
    by (simp add: button_fn_def)
  have c2: "Call two_results_fn [VString ''Hi''] = Some [VComponent (Component ''<p></p>''), VNil]"
    by (simp add: two_results_fn_def)
  have c3: "Call string_fn [VString ''Hi''] = Some [VString ''<p></p>'']"
    by (simp add: string_fn_def)
  show ?thesis
    using executeTemplate_result [OF h1, of "''button''" "Component ''<button>Hi</button>''"]
      executeTemplate_result [OF h2, of "''pair''"]
      executeTemplate_result [OF h3, of "''text''"]
      h1 h2 h3 c1 c2 c3
    by simp
qed

subsection \<open>IntArg\<close>

lemma decimal_Nil: "decimal n [] = n" by (simp add: decimal_def)
lemma decimal_Cons: "decimal n (c # cs) = decimal (n * 10 + digit_val c) cs" by (simp add: decimal_def)

lemma decimal_ge: "n \<le> decimal n cs"
proof (induction cs arbitrary: n)
  case Nil show ?case by (simp add: decimal_Nil)
next
  case (Cons c cs)
  have "n \<le> n * 10 + digit_val c" by simp
  also have "\<dots> \<le> decimal (n * 10 + digit_val c) cs" by (rule Cons.IH)
  finally show ?case by (simp add: decimal_Cons)
qed

lemma digit_val_le: "is_digit c \<Longrightarrow> digit_val c \<le> 9"
  unfolding is_digit_def digit_val_def by arith

lemma ParseUint_loop_digits:
  "\<forall>c\<in>set cs. is_digit c \<Longrightarrow> n < 2 ^ 64 \<Longrightarrow>
   ParseUint_loop n cs =
     (if decimal n cs < 2 ^ 64 then (decimal n cs, None) else (maxUint64, Some ErrRange))"
proof (induction cs arbitrary: n)
  case Nil
  then show ?case by (simp add: decimal_Nil)
next
  case (Cons c cs)
  let ?d = "digit_val c"
  have dig: "is_digit c" and rest: "\<forall>c\<in>set cs. is_digit c" using Cons.prems(1) by simp_all
  have ge: "n * 10 + ?d \<le> decimal n (c # cs)"
    using decimal_ge [of "n * 10 + ?d" cs] by (simp add: decimal_Cons)
  show ?case
  proof (cases "n \<ge> maxUint64 div 10 + 1")
    case True
    then have "n * 10 + ?d \<ge> 2 ^ 64" by (simp add: maxUint64_def)
    with ge have "\<not> decimal n (c # cs) < 2 ^ 64" by simp
    with True dig show ?thesis by simp
  next
    case False
    then have small: "n * 10 < 2 ^ 64" by (simp add: maxUint64_def)
    show ?thesis
    proof (cases "n * 10 + ?d < 2 ^ 64")
      case True
      then have n1: "(n * 10 + ?d) mod 2 ^ 64 = n * 10 + ?d" by simp
      have n': "(n * 10) mod 2 ^ 64 = n * 10" using small by simp
      have "ParseUint_loop n (c # cs) = ParseUint_loop (n * 10 + ?d) cs"
        using dig False True by (simp add: Let_def n1 n' maxUint64_def)
      also have "\<dots> = (if decimal (n * 10 + ?d) cs < 2 ^ 64 then (decimal (n * 10 + ?d) cs, None)
                          else (maxUint64, Some ErrRange))"
        using Cons.IH [OF rest True] .
      finally show ?thesis by (simp add: decimal_Cons)
    next
      case over: False
      have dlt: "?d < 2 ^ 64" using digit_val_le [OF dig] by simp
      have "n * 10 + ?d < 2 * 2 ^ 64" using small dlt by simp
      then have n1: "(n * 10 + ?d) mod 2 ^ 64 = n * 10 + ?d - 2 ^ 64"
        using over by (simp add: mod_if)
      have n': "(n * 10) mod 2 ^ 64 = n * 10" using small by simp
      have lt: "n * 10 + ?d - 2 ^ 64 < n * 10" using dlt over by simp
      have "\<not> decimal n (c # cs) < 2 ^ 64" using ge over by simp
      then show ?thesis
        using dig False lt n1 n' by (simp add: Let_def)
    qed
  qed
qed

lemma ParseUint_loop_syntax: "snd (ParseUint_loop n cs) = Some ErrSyntax \<Longrightarrow> fst (ParseUint_loop n cs) = 0"
  by (induction cs arbitrary: n) (auto simp: Let_def split: if_splits)

lemma ParseUint_syntax: "snd (ParseUint s) = Some ErrSyntax \<Longrightarrow> fst (ParseUint s) = 0"
  by (auto simp: ParseUint_def ParseUint_loop_syntax split: if_splits)

lemma ParseUint_digits:
  assumes "ds \<noteq> []" "\<forall>c\<in>set ds. is_digit c"
  shows "ParseUint ds =
     (if decimal 0 ds < 2 ^ 64 then (decimal 0 ds, None) else (maxUint64, Some ErrRange))"
  using assms ParseUint_loop_digits [of ds 0] by (simp add: ParseUint_def)

lemma int64_range: "- (2 ^ 63) \<le> int64 x \<and> int64 x < 2 ^ 63"
  unfolding int64_def by (simp add: pos_mod_bound pos_mod_sign)

lemma int64_id: "- (2 ^ 63) \<le> x \<Longrightarrow> x < 2 ^ 63 \<Longrightarrow> int64 x = x"
  unfolding int64_def by (simp add: mod_pos_pos_trivial)

lemma ParseInt_range: "- (2 ^ 63) \<le> fst (ParseInt s) \<and> fst (ParseInt s) < 2 ^ 63"
proof (cases s)
  case Nil
  then show ?thesis by (simp add: ParseInt_def)
next
  case (Cons c cs)
  have r: "\<And>x. - 9223372036854775808 \<le> int64 x \<and> int64 x < 9223372036854775808"
    using int64_range by simp
  show ?thesis
    unfolding Cons ParseInt_def
    by (simp add: Let_def r split: prod.splits if_splits)
qed

lemma ParseInt_syntax: "snd (ParseInt s) = Some ErrSyntax \<Longrightarrow> fst (ParseInt s) = 0"
  by (cases s) (auto simp: ParseInt_def Let_def split: prod.splits if_splits)

lemma ParseInt_ErrRange:
  "snd (ParseInt s) = Some ErrRange \<Longrightarrow> fst (ParseInt s) = 2 ^ 63 - 1 \<or> fst (ParseInt s) = - (2 ^ 63)"
  by (cases s) (auto simp: ParseInt_def Let_def int64_def split: prod.splits if_splits)

lemma is_digit_not_sign: "is_digit c \<Longrightarrow> c \<noteq> CHR ''+'' \<and> c \<noteq> CHR ''-''"
  by (auto simp: is_digit_def)

lemma int64_neg: "u \<le> 9223372036854775808 \<Longrightarrow> int64 (- int64 (int u)) = - int u"
proof (cases "u = 9223372036854775808")
  case True
  then show ?thesis by (simp add: int64_def)
next
  case False
  assume "u \<le> 9223372036854775808"
  with False have lt: "int u < 2 ^ 63" by simp
  have "int64 (int u) = int u" by (rule int64_id) (use lt in simp_all)
  moreover have "int64 (- int u) = - int u" by (rule int64_id) (use lt in simp_all)
  ultimately show ?thesis by simp
qed

lemma int64_pos: "u < 9223372036854775808 \<Longrightarrow> int64 (int u) = int u"
  by (rule int64_id) simp_all

lemma int64_max: "int64 9223372036854775807 = 9223372036854775807"
  by (simp add: int64_def)

lemma int64_min: "int64 (- int64 9223372036854775808) = - 9223372036854775808"
  by (simp add: int64_def)

lemma ParseInt_body:
  assumes "ds \<noteq> []" "\<forall>c\<in>set ds. is_digit c"
  shows "ParseInt (CHR ''+'' # ds) =
           (if decimal 0 ds < 2 ^ 63 then (int (decimal 0 ds), None) else (2 ^ 63 - 1, Some ErrRange))"
    and "ParseInt (CHR ''-'' # ds) =
           (if decimal 0 ds \<le> 2 ^ 63 then (- int (decimal 0 ds), None) else (- (2 ^ 63), Some ErrRange))"
    and "ParseInt ds =
           (if decimal 0 ds < 2 ^ 63 then (int (decimal 0 ds), None) else (2 ^ 63 - 1, Some ErrRange))"
proof -
  have u: "ParseUint ds =
     (if decimal 0 ds < 2 ^ 64 then (decimal 0 ds, None) else (maxUint64, Some ErrRange))"
    by (rule ParseUint_digits [OF assms])
  show "ParseInt (CHR ''+'' # ds) =
           (if decimal 0 ds < 2 ^ 63 then (int (decimal 0 ds), None) else (2 ^ 63 - 1, Some ErrRange))"
    by (simp add: ParseInt_def u Let_def maxUint64_def int64_pos int64_max)
  show "ParseInt (CHR ''-'' # ds) =
           (if decimal 0 ds \<le> 2 ^ 63 then (- int (decimal 0 ds), None) else (- (2 ^ 63), Some ErrRange))"
    by (simp add: ParseInt_def u Let_def maxUint64_def int64_neg int64_min)
  obtain c cs where ds: "ds = c # cs" using assms(1) by (cases ds) auto
  have "is_digit c" using assms(2) ds by simp
  then have ns: "c \<noteq> CHR ''+''" "c \<noteq> CHR ''-''" using is_digit_not_sign by auto
  show "ParseInt ds =
           (if decimal 0 ds < 2 ^ 63 then (int (decimal 0 ds), None) else (2 ^ 63 - 1, Some ErrRange))"
    using u ns unfolding ds
    by (simp add: ParseInt_def Let_def maxUint64_def int64_pos int64_max)
qed

text \<open>
  C7, as the claim states it, fails: on digits that denote a number beyond the range of
  64 bits the parse fails, and the value extracted is the bound of the range, not zero.
\<close>

theorem IntArg_range_counterexample:
  "snd (ParseInt ''9223372036854775808'') = Some ErrRange \<and>
   Get (IntArg ''n'' 0 \<lparr>MinPtr = None, MaxPtr = None, StepPtr = None\<rparr>)
       [''n'' \<mapsto> [''9223372036854775808'']] (\<lambda>p. ()) = (VInt 9223372036854775807, (\<lambda>p. ())) \<and>
   fst (Get (IntArg ''n'' 0 \<lparr>MinPtr = None, MaxPtr = None, StepPtr = None\<rparr>)
       [''n'' \<mapsto> [''9223372036854775808'']] (\<lambda>p. ())) \<noteq> VInt 0"
  by (simp add: IntArg_def Values_Get_def ParseInt_def ParseUint_def is_digit_def digit_val_def
      maxUint64_def int64_def Let_def)

text \<open>
  C7, amended. The value extracted is the integer \<open>ParseInt\<close> returns for the raw string
  of the name, whatever error comes with it, and no error is surfaced (the store is
  untouched). It is zero when the parameter is absent and whenever the parse fails with a
  syntax error. When the parse fails with a range error it is the nearest bound of the
  signed 64-bit range. On a string of decimal digits, with or without a sign, the parse
  gives the number the digits denote when it lies in the range, and fails with a range
  error otherwise.
\<close>

theorem IntArg_Get_parses:
  "Get (IntArg name v conf) q st = (VInt (fst (ParseInt (Values_Get q name))), st) \<and>
   (q name = None \<longrightarrow> Get (IntArg name v conf) q st = (VInt 0, st)) \<and>
   (snd (ParseInt s) = Some ErrSyntax \<longrightarrow> fst (ParseInt s) = 0) \<and>
   (snd (ParseInt s) = Some ErrRange \<longrightarrow>
      fst (ParseInt s) = 2 ^ 63 - 1 \<or> fst (ParseInt s) = - (2 ^ 63)) \<and>
   (ds \<noteq> [] \<and> (\<forall>c\<in>set ds. is_digit c) \<longrightarrow>
      ParseInt ds =
        (if decimal 0 ds < 2 ^ 63 then (int (decimal 0 ds), None) else (2 ^ 63 - 1, Some ErrRange)) \<and>
      ParseInt (CHR ''+'' # ds) =
        (if decimal 0 ds < 2 ^ 63 then (int (decimal 0 ds), None) else (2 ^ 63 - 1, Some ErrRange)) \<and>
      ParseInt (CHR ''-'' # ds) =
        (if decimal 0 ds \<le> 2 ^ 63 then (- int (decimal 0 ds), None) else (- (2 ^ 63), Some ErrRange)))"
proof -
  have r: "int64 (fst (ParseInt (Values_Get q name))) = fst (ParseInt (Values_Get q name))"
    using ParseInt_range [of "Values_Get q name"] by (intro int64_id) simp_all
  have g: "Get (IntArg name v conf) q st = (VInt (fst (ParseInt (Values_Get q name))), st)"
    by (cases "ParseInt (Values_Get q name)") (use r in \<open>simp add: IntArg_def Let_def\<close>)
  have a: "q name = None \<longrightarrow> Get (IntArg name v conf) q st = (VInt 0, st)"
    unfolding g by (simp add: Values_Get_def ParseInt_def)
  from g a ParseInt_syntax [of s] ParseInt_ErrRange [of s] ParseInt_body [of ds]
  show ?thesis by blast
qed

theorem IntArg_Get_parses_witness:
  "Get (IntArg ''n'' 0 \<lparr>MinPtr = None, MaxPtr = None, StepPtr = None\<rparr>)
       [''n'' \<mapsto> [''42'']] (\<lambda>p. ()) = (VInt 42, (\<lambda>p. ())) \<and>
   Get (IntArg ''n'' 0 \<lparr>MinPtr = None, MaxPtr = None, StepPtr = None\<rparr>)
       [''m'' \<mapsto> [''42'']] (\<lambda>p. ()) = (VInt 0, (\<lambda>p. ())) \<and>
   snd (ParseInt ''abc'') = Some ErrSyntax \<and> fst (ParseInt ''abc'') = 0 \<and>
   snd (ParseInt ''-9223372036854775809'') = Some ErrRange \<and>
   fst (ParseInt ''-9223372036854775809'') = - (2 ^ 63) \<and>
   is_digit CHR ''4'' \<and> is_digit CHR ''2'' \<and> ParseInt ''-42'' = (- 42, None)"
proof -
  let ?conf = "\<lparr>MinPtr = None, MaxPtr = None, StepPtr = None\<rparr>"
  let ?arg = "IntArg ''n'' 0 ?conf :: unit Arg"
  note T1 = IntArg_Get_parses [of "''n''" 0 ?conf "[''n'' \<mapsto> [''42'']]" "\<lambda>p. ()" "''abc''" "''42''"]
  note T2 = IntArg_Get_parses [of "''n''" 0 ?conf "[''m'' \<mapsto> [''42'']]" "\<lambda>p. ()"
      "''-9223372036854775809''" "''42''"]
  have p: "ParseInt ''42'' = (42, None)"
    by (simp add: ParseInt_def ParseUint_def is_digit_def digit_val_def maxUint64_def
        int64_def Let_def)
  have s1: "snd (ParseInt ''abc'') = Some ErrSyntax"
    by (simp add: ParseInt_def ParseUint_def is_digit_def)
  have s2: "snd (ParseInt ''-9223372036854775809'') = Some ErrRange"
    by (simp add: ParseInt_def ParseUint_def is_digit_def digit_val_def maxUint64_def
        int64_def Let_def)
  have d: "is_digit CHR ''4''" "is_digit CHR ''2''" "decimal 0 ''42'' = 42"
    by (simp_all add: is_digit_def decimal_def digit_val_def)
  have v: "Values_Get [''n'' \<mapsto> [''42'']] ''n'' = ''42''"
    by (simp add: Values_Get_def)
  have "Get ?arg [''n'' \<mapsto> [''42'']] (\<lambda>p. ()) =
          (VInt (fst (ParseInt (Values_Get [''n'' \<mapsto> [''42'']] ''n''))), (\<lambda>p. ()))"
    using T1 by (rule conjunct1)
  then have g1: "Get ?arg [''n'' \<mapsto> [''42'']] (\<lambda>p. ()) = (VInt 42, (\<lambda>p. ()))"
    by (simp only: v p fst_conv)
  have g2: "Get ?arg [''m'' \<mapsto> [''42'']] (\<lambda>p. ()) = (VInt 0, (\<lambda>p. ()))"
    using T2 [THEN conjunct2, THEN conjunct1] by simp
  have z: "fst (ParseInt ''abc'') = 0"
    using T1 s1 by blast
  have "fst (ParseInt ''-9223372036854775809'') = 2 ^ 63 - 1 \<or>
        fst (ParseInt ''-9223372036854775809'') = - (2 ^ 63)"
    using T2 s2 by blast
  moreover have "fst (ParseInt ''-9223372036854775809'') \<noteq> 2 ^ 63 - 1"
    by (simp add: ParseInt_def ParseUint_def is_digit_def digit_val_def maxUint64_def
        int64_def Let_def)
  ultimately have b: "fst (ParseInt ''-9223372036854775809'') = - (2 ^ 63)" by blast
  have "ParseInt (CHR ''-'' # ''42'') =
          (if decimal 0 ''42'' \<le> 2 ^ 63 then (- int (decimal 0 ''42''), None)
           else (- (2 ^ 63), Some ErrRange))"
    using T1 [THEN conjunct2, THEN conjunct2, THEN conjunct2, THEN conjunct2] d(1,2) by simp
  then have m: "ParseInt ''-42'' = (- 42, None)"
    by (simp add: d(3))
  from g1 g2 s1 z s2 b d(1,2) m show ?thesis by blast
qed

subsection \<open>ObjectArg\<close>

lemma ObjectArg_Get:
  "Get (ObjectArg U name v p) q st =
     (VObject (snd (U (Values_Get q name) (st p))), st(p := snd (U (Values_Get q name) (st p))))"
  by (simp add: ObjectArg_def Let_def split: prod.splits)

lemma Get_each_Cons:
  "Get_each arg (q # qs) st =
     (fst (Get arg q st) # fst (Get_each arg qs (snd (Get arg q st))),
      snd (Get_each arg qs (snd (Get arg q st))))"
  by (simp add: Let_def split_beta)

lemma Get_each_length: "length (fst (Get_each arg qs st)) = length qs"
  by (induction qs arbitrary: st) (simp_all add: Get_each_Cons del: Get_each.simps(2))

lemma ObjectArg_Get_each_last:
  "qs \<noteq> [] \<Longrightarrow>
   last (fst (Get_each (ObjectArg U name v p) qs st)) =
     VObject (snd (Get_each (ObjectArg U name v p) qs st) p)"
proof (induction qs arbitrary: st)
  case Nil
  then show ?case by simp
next
  case (Cons q qs)
  show ?case
  proof (cases "qs = []")
    case True
    then show ?thesis by (simp add: ObjectArg_Get)
  next
    case False
    let ?st1 = "snd (Get (ObjectArg U name v p) q st)"
    have ne: "fst (Get_each (ObjectArg U name v p) qs ?st1) \<noteq> []"
      using Get_each_length [of "ObjectArg U name v p" qs ?st1] False by auto
    from Cons.IH [OF False, of ?st1] ne show ?thesis
      by (simp add: Get_each_Cons del: Get_each.simps)
  qed
qed

text \<open>
  C4, as the claim states it, fails: the pointer of an \<open>ObjectArg\<close> is shared by all
  requests and never reset. With the default \<^verbatim>\<open>false\<close> and the pointer holding \<^verbatim>\<open>false\<close>,
  a request with \<^verbatim>\<open>true\<close> stores \<^verbatim>\<open>true\<close>; the next request, whose raw string does not
  decode, extracts \<^verbatim>\<open>true\<close>, not the default.
\<close>

theorem ObjectArg_default_counterexample:
  "Value (ObjectArg Unmarshal_bool ''flag'' (VObject False) 0) = VObject False \<and>
   Get_each (ObjectArg Unmarshal_bool ''flag'' (VObject False) 0)
     [[''flag'' \<mapsto> [''true'']], [''flag'' \<mapsto> [''{'']]] (\<lambda>p. False) =
     ([VObject True, VObject True], (\<lambda>p. False)(0 := True)) \<and>
   Unmarshal_bool ''{'' True = (True, True) \<and>
   VObject True \<noteq> Value (ObjectArg Unmarshal_bool ''flag'' (VObject False) 0)"
  by (simp add: ObjectArg_def Values_Get_def Unmarshal_bool_def json_trim_def json_isSpace_def Let_def)

text \<open>
  C4, amended. When the raw string of a request fails to decode and the decoder leaves the
  object behind the pointer as it was, the value extracted is that object: the object the
  pointer held at first when no request came before, else the value the preceding request
  extracted. No error is surfaced, and the store is left as it was.
\<close>

theorem ObjectArg_Get_after_failed_decode:
  assumes "U (Values_Get q name) (snd (Get_each (ObjectArg U name v p) qs st0) p) =
             (True, snd (Get_each (ObjectArg U name v p) qs st0) p)"
  shows "Get (ObjectArg U name v p) q (snd (Get_each (ObjectArg U name v p) qs st0)) =
           ((if qs = [] then VObject (st0 p) else last (fst (Get_each (ObjectArg U name v p) qs st0))),
            snd (Get_each (ObjectArg U name v p) qs st0))"
proof -
  let ?st = "snd (Get_each (ObjectArg U name v p) qs st0)"
  have g: "Get (ObjectArg U name v p) q ?st = (VObject (?st p), ?st)"
    using assms by (simp add: ObjectArg_Get)
  show ?thesis
  proof (cases "qs = []")
    case True
    with g show ?thesis by simp
  next
    case False
    with g ObjectArg_Get_each_last [OF False, of U name v p st0] show ?thesis by simp
  qed
qed

theorem ObjectArg_Get_after_failed_decode_witness:
  "Unmarshal_bool ''{'' True = (True, True) \<and>
   Get (ObjectArg Unmarshal_bool ''flag'' (VObject False) 0) [''flag'' \<mapsto> [''{'']]
     (snd (Get_each (ObjectArg Unmarshal_bool ''flag'' (VObject False) 0)
             [[''flag'' \<mapsto> [''true'']]] (\<lambda>p. False))) =
     (VObject True, (\<lambda>p. False)(0 := True))"
proof -
  let ?arg = "ObjectArg Unmarshal_bool ''flag'' (VObject False) 0"
  let ?qs = "[[''flag'' \<mapsto> [''true'']]]"
  have e: "Get_each ?arg ?qs (\<lambda>p. False) = ([VObject True], (\<lambda>p. False)(0 := True))"
    by (simp add: ObjectArg_def Values_Get_def Unmarshal_bool_def json_trim_def json_isSpace_def Let_def)
  have u: "Unmarshal_bool ''{'' True = (True, True)"
    by (simp add: Unmarshal_bool_def json_trim_def json_isSpace_def Let_def)
  have h: "Unmarshal_bool (Values_Get [''flag'' \<mapsto> [''{'']] ''flag'') (snd (Get_each ?arg ?qs (\<lambda>p. False)) 0) =
             (True, snd (Get_each ?arg ?qs (\<lambda>p. False)) 0)"
    unfolding e using u by (simp add: Values_Get_def)
  from ObjectArg_Get_after_failed_decode [OF h] have "Get ?arg [''flag'' \<mapsto> [''{'']] (snd (Get_each ?arg ?qs (\<lambda>p. False))) =
      (if ?qs = [] then VObject False else last (fst (Get_each ?arg ?qs (\<lambda>p. False))),
       snd (Get_each ?arg ?qs (\<lambda>p. False)))" .
  then have "Get ?arg [''flag'' \<mapsto> [''{'']] (snd (Get_each ?arg ?qs (\<lambda>p. False))) =
      (VObject True, (\<lambda>p. False)(0 := True))"
    by (simp only: e fst_conv snd_conv last.simps list.distinct if_False if_True refl)
  with u show ?thesis by blast
qed

subsection \<open>The preview router\<close>

lemma Title_AddStory: "Title (AddStory c n a) = Title c"
  by (simp add: AddStory_def Let_def)

lemma Title_foldl:
  "(\<And>c a. Title (f c a) = Title c) \<Longrightarrow> Title (foldl f c args) = Title c"
  by (induction args arbitrary: c) simp_all

lemma Title_NewConf: "Title (NewConf name args) = name"
  by (simp add: NewConf_def Let_def Title_AddStory Title_foldl)

lemma registered_Title: "registered sh \<Longrightarrow> Config sh k = Some c \<Longrightarrow> Title c = k"
proof (induction arbitrary: k c rule: registered.induct)
  case registered_New
  then show ?case by (simp add: New_def)
next
  case (registered_AddComponent sh name f args)
  then show ?case
    by (auto simp: AddComponent_def Let_def Title_NewConf split: if_splits)
qed

lemma registered_Handlers:
  "registered sh \<Longrightarrow> Handlers sh k = Some h \<Longrightarrow> \<exists>f args. h = NewHandler k f args"
proof (induction arbitrary: k h rule: registered.induct)
  case registered_New
  then show ?case by (simp add: New_def)
next
  case (registered_AddComponent sh name f args)
  then show ?case
    by (auto simp: AddComponent_def Let_def split: if_splits)
qed

lemma NewHandler_cases:
  assumes "NewHandler_argv args (URL_Query r) st = (argv, st')"
  shows "NewHandler n f args r st =
     (case fst (executeTemplate n f argv) of
        Inl (Error e) \<Rightarrow> (Responded \<lparr>status = 500, body = e @ ''\<newline>''\<rparr>, st')
      | Inl Panic \<Rightarrow> (Panicked, st')
      | Inr c \<Rightarrow> (Responded \<lparr>status = 200, body = Render c\<rparr>, st'))"
  using assms by (simp add: NewHandler_def Let_def http_Error_def templ_Handler_def split: sum.splits error.splits)

lemma previewHandler_cases:
  "(X r = None \<longrightarrow>
      previewHandler X sh r st =
        (Responded \<lparr>status = 404, body = ''404 page not found\<newline>''\<rparr>, st)) \<and>
   (\<forall>values. X r = Some values \<and> values ''name'' = None \<longrightarrow>
      previewHandler X sh r st =
        (Responded \<lparr>status = 404, body = ''404 page not found\<newline>''\<rparr>, st)) \<and>
   (\<forall>values name. X r = Some values \<and> values ''name'' = Some name \<and>
        Handlers sh name = None \<longrightarrow>
      previewHandler X sh r st =
        (Responded \<lparr>status = 404, body = ''404 page not found\<newline>''\<rparr>, st)) \<and>
   (\<forall>values name n f args argv st'.
      X r = Some values \<and> values ''name'' = Some name \<and>
      Handlers sh name = Some (NewHandler n f args) \<and>
      NewHandler_argv args (URL_Query r) st = (argv, st') \<longrightarrow>
        (\<forall>e. fst (executeTemplate n f argv) = Inl (Error e) \<longrightarrow>
           previewHandler X sh r st =
             (Responded \<lparr>status = 500, body = e @ ''\<newline>''\<rparr>, st')) \<and>
        (\<forall>c. fst (executeTemplate n f argv) = Inr c \<longrightarrow>
           previewHandler X sh r st =
             (Responded \<lparr>status = 200, body = Render c\<rparr>, st')) \<and>
        (fst (executeTemplate n f argv) = Inl Panic \<longrightarrow>
           previewHandler X sh r st = (Panicked, st')))"
  by (auto simp: previewHandler_def http_NotFound_def http_Error_def NewHandler_cases)

lemma NewHandler_status:
  "fst (NewHandler n f args r st) = Panicked \<or>
   (\<exists>resp. fst (NewHandler n f args r st) = Responded resp \<and>
      (status resp = 404 \<or> status resp = 500 \<or> status resp = 200))"
  by (cases "NewHandler_argv args (URL_Query r) st")
     (auto simp: NewHandler_cases split: sum.splits error.splits)

lemmas reg_defs = sh_button_def sh_no_args_def sh_panic_def AddComponent_def New_def Let_def

text \<open>
  C8, as the claim states it, fails: when the call of the constructor panics the handler
  panics with it and writes no response, so the outcome is none of 404, 500 and 200.
\<close>

theorem previewHandler_panic_counterexample:
  "fst (previewHandler X0 sh_panic
          \<lparr>URL_Path = ''/storybook_preview/boom'', URL_Query = Map.empty\<rparr> (\<lambda>p. ())) = Panicked"
  by (simp add: previewHandler_def X0_def sh_panic_def AddComponent_def New_def Let_def
      NewHandler_def executeTemplate_def panic_fn_def)

text \<open>
  C8, amended. For every request to the preview handler of a registry built by
  \<open>AddComponent\<close>: the response is 404 with the body \<^verbatim>\<open>404 page not found\<close> and a newline
  when the path does not match, the name is absent, or the name has no handler; else the
  handler is the one \<open>NewHandler\<close> built for the name, and the response is 500 with the
  text of the error and a newline as the body when \<open>executeTemplate\<close> returns an error,
  200 with the rendered output as the body when it returns a component, and there is no
  response, the handler panicking, when the call of the constructor panics. So the
  handler panics or responds with one of the three statuses.
\<close>

theorem previewHandler_outcomes:
  assumes "registered sh"
  shows
  "(X r = None \<longrightarrow>
      previewHandler X sh r st =
        (Responded \<lparr>status = 404, body = ''404 page not found\<newline>''\<rparr>, st)) \<and>
   (\<forall>values. X r = Some values \<and> values ''name'' = None \<longrightarrow>
      previewHandler X sh r st =
        (Responded \<lparr>status = 404, body = ''404 page not found\<newline>''\<rparr>, st)) \<and>
   (\<forall>values name. X r = Some values \<and> values ''name'' = Some name \<and>
        Handlers sh name = None \<longrightarrow>
      previewHandler X sh r st =
        (Responded \<lparr>status = 404, body = ''404 page not found\<newline>''\<rparr>, st)) \<and>
   (\<forall>values name h. X r = Some values \<and> values ''name'' = Some name \<and>
        Handlers sh name = Some h \<longrightarrow> (\<exists>f args. h = NewHandler name f args)) \<and>
   (\<forall>values name n f args argv st'.
      X r = Some values \<and> values ''name'' = Some name \<and>
      Handlers sh name = Some (NewHandler n f args) \<and>
      NewHandler_argv args (URL_Query r) st = (argv, st') \<longrightarrow>
        (\<forall>e. fst (executeTemplate n f argv) = Inl (Error e) \<longrightarrow>
           previewHandler X sh r st =
             (Responded \<lparr>status = 500, body = e @ ''\<newline>''\<rparr>, st')) \<and>
        (\<forall>c. fst (executeTemplate n f argv) = Inr c \<longrightarrow>
           previewHandler X sh r st =
             (Responded \<lparr>status = 200, body = Render c\<rparr>, st')) \<and>
        (fst (executeTemplate n f argv) = Inl Panic \<longrightarrow>
           previewHandler X sh r st = (Panicked, st'))) \<and>
   (fst (previewHandler X sh r st) = Panicked \<or>
    (\<exists>resp. fst (previewHandler X sh r st) = Responded resp \<and>
       (status resp = 404 \<or> status resp = 500 \<or> status resp = 200)))"
proof -
  have nf: "status http_NotFound = 404" by (simp add: http_NotFound_def http_Error_def)
  have cases: "fst (previewHandler X sh r st) = Panicked \<or>
    (\<exists>resp. fst (previewHandler X sh r st) = Responded resp \<and>
       (status resp = 404 \<or> status resp = 500 \<or> status resp = 200))"
  proof (cases "X r")
    case None
    then show ?thesis by (simp add: previewHandler_def nf)
  next
    case (Some vs)
    show ?thesis
    proof (cases "vs ''name''")
      case None
      with Some show ?thesis by (simp add: previewHandler_def nf)
    next
      case name: (Some name)
      show ?thesis
      proof (cases "Handlers sh name")
        case None
        with Some name show ?thesis by (simp add: previewHandler_def nf)
      next
        case h: (Some h)
        from registered_Handlers [OF assms h] obtain f args where "h = NewHandler name f args"
          by blast
        with Some name h NewHandler_status [of name f args r st] show ?thesis
          by (simp add: previewHandler_def)
      qed
    qed
  qed
  have reg: "\<forall>values name h. X r = Some values \<and> values ''name'' = Some name \<and>
        Handlers sh name = Some h \<longrightarrow> (\<exists>f args. h = NewHandler name f args)"
    using registered_Handlers [OF assms] by blast
  from previewHandler_cases [of X r sh st] reg cases show ?thesis by blast
qed

theorem previewHandler_outcomes_witness:
  "previewHandler X0 sh_button
     \<lparr>URL_Path = ''/storybook_preview/unknownName'', URL_Query = Map.empty\<rparr> (\<lambda>p. ()) =
     (Responded \<lparr>status = 404, body = ''404 page not found\<newline>''\<rparr>, (\<lambda>p. ())) \<and>
   previewHandler X0 sh_button
     \<lparr>URL_Path = ''/storybook_preview/button'', URL_Query = [''text'' \<mapsto> [''Hi'']]\<rparr> (\<lambda>p. ()) =
     (Responded \<lparr>status = 200, body = ''<button>Hi</button>''\<rparr>, (\<lambda>p. ())) \<and>
   previewHandler X0 sh_no_args
     \<lparr>URL_Path = ''/storybook_preview/button'', URL_Query = [''text'' \<mapsto> [''Hi'']]\<rparr> (\<lambda>p. ()) =
     (Responded \<lparr>status = 500,
        body = ''templ-storybook: component %!s(func(string) templ.Component=0x4a5d20) expects 1 argument, but 0 were provided\<newline>''\<rparr>,
      (\<lambda>p. ()))"
proof -
  let ?r0 = "\<lparr>URL_Path = ''/storybook_preview/unknownName'', URL_Query = Map.empty\<rparr>"
  let ?r1 = "\<lparr>URL_Path = ''/storybook_preview/button'', URL_Query = [''text'' \<mapsto> [''Hi'']]\<rparr>"
  let ?st = "\<lambda>p::nat. ()"
  have x0: "X0 ?r0 = Some [''name'' \<mapsto> ''unknownName'']"
    by (simp add: X0_def)
  have x1: "X0 ?r1 = Some [''name'' \<mapsto> ''button'']"
    by (simp add: X0_def)
  have n0: "[''name'' \<mapsto> ''unknownName''] ''name'' = Some ''unknownName''"
    and n1: "[''name'' \<mapsto> ''button''] ''name'' = Some ''button''"
    by simp_all
  have h0: "Handlers sh_button ''unknownName'' = None"
    by (simp add: reg_defs)
  have h1: "Handlers sh_button ''button'' = Some (NewHandler ''button'' button_fn [TextArg ''text'' ''Click''])"
    by (simp add: reg_defs)
  have h2: "Handlers sh_no_args ''button'' = Some (NewHandler ''button'' button_fn [])"
    by (simp add: reg_defs)
  have a1: "NewHandler_argv [TextArg ''text'' ''Click''] (URL_Query ?r1) ?st = ([VString ''Hi''], ?st)"
    by (simp add: TextArg_def Values_Get_def)
  have a2: "NewHandler_argv [] (URL_Query ?r1) ?st = ([], ?st)"
    by simp
  have e1: "fst (executeTemplate ''button'' button_fn [VString ''Hi'']) = Inr (Component ''<button>Hi</button>'')"
    by (simp add: executeTemplate_def button_fn_def)
  have e2: "fst (executeTemplate ''button'' button_fn []) =
     Inl (Error ''templ-storybook: component %!s(func(string) templ.Component=0x4a5d20) expects 1 argument, but 0 were provided'')"
    by (simp add: executeTemplate_def button_fn_def fmt_s_Func_def fmt_v_Func_def
      fmt_x.simps fmt_d.simps digit_char_def)
  have reg1: "registered sh_button"
    unfolding sh_button_def by (intro registered.intros)
  have reg2: "registered sh_no_args"
    unfolding sh_no_args_def by (intro registered.intros)
  note T0 = previewHandler_outcomes [OF reg1, of X0 ?r0 ?st]
  note T1 = previewHandler_outcomes [OF reg1, of X0 ?r1 ?st]
  note T2 = previewHandler_outcomes [OF reg2, of X0 ?r1 ?st]
  note N0 = T0 [THEN conjunct2, THEN conjunct2, THEN conjunct1, rule_format]
  note H1 = T1 [THEN conjunct2, THEN conjunct2, THEN conjunct2, THEN conjunct2, THEN conjunct1,
      rule_format]
  note H2 = T2 [THEN conjunct2, THEN conjunct2, THEN conjunct2, THEN conjunct2, THEN conjunct1,
      rule_format]
  have c0: "X0 ?r0 = Some [''name'' \<mapsto> ''unknownName''] \<and>
            [''name'' \<mapsto> ''unknownName''] ''name'' = Some ''unknownName'' \<and>
            Handlers sh_button ''unknownName'' = None"
    using x0 n0 h0 by blast
  have g0: "previewHandler X0 sh_button ?r0 ?st =
     (Responded \<lparr>status = 404, body = ''404 page not found\<newline>''\<rparr>, ?st)"
    using N0 [OF c0] .
  have c1: "X0 ?r1 = Some [''name'' \<mapsto> ''button''] \<and>
            [''name'' \<mapsto> ''button''] ''name'' = Some ''button'' \<and>
            Handlers sh_button ''button'' = Some (NewHandler ''button'' button_fn [TextArg ''text'' ''Click'']) \<and>
            NewHandler_argv [TextArg ''text'' ''Click''] (URL_Query ?r1) ?st = ([VString ''Hi''], ?st)"
    using x1 n1 h1 a1 by blast
  have g1: "previewHandler X0 sh_button ?r1 ?st =
     (Responded \<lparr>status = 200, body = Render (Component ''<button>Hi</button>'')\<rparr>, ?st)"
    using H1 [OF c1, THEN conjunct2, THEN conjunct1, rule_format, OF e1] .
  have c2: "X0 ?r1 = Some [''name'' \<mapsto> ''button''] \<and>
            [''name'' \<mapsto> ''button''] ''name'' = Some ''button'' \<and>
            Handlers sh_no_args ''button'' = Some (NewHandler ''button'' button_fn []) \<and>
            NewHandler_argv [] (URL_Query ?r1) ?st = ([], ?st)"
    using x1 n1 h2 a2 by blast
  have g2: "previewHandler X0 sh_no_args ?r1 ?st =
     (Responded \<lparr>status = 500,
        body = ''templ-storybook: component %!s(func(string) templ.Component=0x4a5d20) expects 1 argument, but 0 were provided'' @ ''\<newline>''\<rparr>, ?st)"
    using H2 [OF c2, THEN conjunct1, rule_format, OF e2] .
  from g0 g1 g2 show ?thesis by simp
qed

subsection \<open>The build pipeline\<close>

lemmas ex_defs = lib0_def os_ok_def os_build_fails_def sh_button_def w0_def button_fn_def
  AddComponent_def New_def NewConf_def AddStory_def TextArg_def NewSortedMap_def Add_def

lemmas pipe_defs = Build_def installStorybook_def configureStorybook_def buildStorybook_def
  HashDir_def cmd_Run_def Log_Info_def Let_def List.map_filter_def

lemmas path_defs = path_Join_def path_Clean_def within_dir_def

text \<open>
  C5. The code differs from the claim in a run in which the first two stages succeed, the
  configuration has changed, and the command \<^verbatim>\<open>npm run build-storybook\<close> of the third
  stage fails: \<open>buildStorybook\<close> returns the error, and \<open>Build\<close>, which does not assign
  it, returns nil.
\<close>

theorem Build_drops_build_error:
  "fst (Build lib0 os_build_fails sh_button w0) = None \<and>
   commands (snd (Build lib0 os_build_fails sh_button w0)) = [[''npm'', ''run'', ''build-storybook'']] \<and>
   fst (buildStorybook os_build_fails w0) = Some (Error ''exit status 1'')"
  by (simp add: ex_defs pipe_defs path_defs)

text \<open>An error of the first stage is returned by \<open>Build\<close>, and so is one of the second.\<close>

lemma Build_returns_install_error:
  "fst (installStorybook os (Log_Info w ''Installing storybook.'')) = Some e \<Longrightarrow>
   Build lib os sh w = (Some e, snd (installStorybook os (Log_Info w ''Installing storybook.'')))"
  by (cases "installStorybook os (Log_Info w ''Installing storybook.'')") (simp add: Build_def Let_def)

lemma Build_returns_configure_error:
  assumes "installStorybook os (Log_Info w ''Installing storybook.'') = (None, wi)"
    and "\<not> ctx_Err os 1"
    and "configureStorybook lib os sh (Log_Info wi ''Configuring storybook.'') = (chg, Some e, wc)"
  shows "Build lib os sh w = (Some e, wc)"
  using assms by (simp add: Build_def Let_def)

text \<open>When the first two stages return no error, \<open>Build\<close> returns nil whatever the third does.\<close>

lemma Build_ignores_build_result:
  assumes "installStorybook os (Log_Info w ''Installing storybook.'') = (None, wi)"
    and "configureStorybook lib os sh (Log_Info wi ''Configuring storybook.'') = (chg, None, wc)"
  shows "fst (Build lib os sh w) = None"
  using assms by (simp add: Build_def Let_def)

lemma map_add_file:
  "fs(k \<mapsto> s) ++ map_of (rev xs) = fs ++ map_of (rev ((k, s) # xs))"
proof -
  have "map_of (rev ((k, s) # xs)) = [k \<mapsto> s] ++ map_of (rev xs)"
    by (simp add: map_of_append)
  moreover have "fs ++ ([k \<mapsto> s] ++ map_of (rev xs)) = (fs ++ [k \<mapsto> s]) ++ map_of (rev xs)"
    by simp
  moreover have "fs ++ [k \<mapsto> s] = fs(k \<mapsto> s)"
    by simp
  ultimately show ?thesis by simp
qed

lemma loop_success:
  "configureStorybook_loop lib os sh cs w = (None, w') \<Longrightarrow>
   files w' = files w ++ map_of (rev (map (file_of lib sh) cs)) \<and>
   stories_exists w' = stories_exists w \<and> preview_js w' = preview_js w \<and>
   commands w' = commands w \<and> logged w' = logged w \<and>
   (\<forall>c\<in>set cs. \<exists>s. Encode_Conf lib c = Inr s)"
proof (induction cs arbitrary: w)
  case Nil
  then show ?case by simp
next
  case (Cons c cs)
  let ?name = "path_Join (Path sh) (''stories/'' @ Title c @ ''.stories.json'')"
  from Cons.prems obtain s where enc: "Encode_Conf lib c = Inr s"
    and rest: "configureStorybook_loop lib os sh cs (w\<lparr>files := (files w)(?name \<mapsto> s)\<rparr>) = (None, w')"
    by (auto simp: Let_def split: option.splits sum.splits)
  note ih = Cons.IH [OF rest]
  have fo: "file_of lib sh c = (?name, s)" by (simp add: file_of_def story_path_def enc)
  have "files w' = files (w\<lparr>files := (files w)(?name \<mapsto> s)\<rparr>) ++ map_of (rev (map (file_of lib sh) cs))"
    using ih by (rule conjunct1)
  moreover have "files (w\<lparr>files := (files w)(?name \<mapsto> s)\<rparr>) = (files w)(?name \<mapsto> s)"
    by simp
  ultimately have "files w' = (files w)(?name \<mapsto> s) ++ map_of (rev (map (file_of lib sh) cs))"
    by (rule trans [OF _ arg_cong [where f = "\<lambda>x. x ++ map_of (rev (map (file_of lib sh) cs))"]])
  then have 1: "files w' = files w ++ map_of (rev (map (file_of lib sh) (c # cs)))"
    by (simp only: map_add_file list.map fo)
  have 2: "stories_exists w' = stories_exists w \<and> preview_js w' = preview_js w \<and>
           commands w' = commands w \<and> logged w' = logged w"
    using ih by simp
  have 3: "\<forall>c\<in>set (c # cs). \<exists>s. Encode_Conf lib c = Inr s"
    using ih enc by simp
  from 1 2 3 show ?case by blast
qed

lemma loop_run:
  "\<forall>name. Create_file os name = None \<Longrightarrow> \<forall>c\<in>set cs. \<exists>s. Encode_Conf lib c = Inr s \<Longrightarrow>
   configureStorybook_loop lib os sh cs w =
     (None, w\<lparr>files := files w ++ map_of (rev (map (file_of lib sh) cs))\<rparr>)"
proof (induction cs arbitrary: w)
  case Nil
  then show ?case by simp
next
  case (Cons c cs)
  let ?name = "path_Join (Path sh) (''stories/'' @ Title c @ ''.stories.json'')"
  from Cons.prems(2) obtain s where enc: "Encode_Conf lib c = Inr s" by auto
  have fo: "file_of lib sh c = (?name, s)" by (simp add: file_of_def story_path_def enc)
  have rest: "\<forall>c\<in>set cs. \<exists>s. Encode_Conf lib c = Inr s" using Cons.prems(2) by simp
  let ?w1 = "w\<lparr>files := (files w)(?name \<mapsto> s)\<rparr>"
  have "configureStorybook_loop lib os sh (c # cs) w = configureStorybook_loop lib os sh cs ?w1"
    using Cons.prems(1) enc by (simp add: Let_def)
  also have "\<dots> = (None, ?w1\<lparr>files := files ?w1 ++ map_of (rev (map (file_of lib sh) cs))\<rparr>)"
    by (rule Cons.IH [OF Cons.prems(1) rest])
  also have "?w1\<lparr>files := files ?w1 ++ map_of (rev (map (file_of lib sh) cs))\<rparr> =
             w\<lparr>files := (files w)(?name \<mapsto> s) ++ map_of (rev (map (file_of lib sh) cs))\<rparr>"
    by simp
  also have "(files w)(?name \<mapsto> s) ++ map_of (rev (map (file_of lib sh) cs)) =
             files w ++ map_of (rev (map (file_of lib sh) (c # cs)))"
    by (simp only: map_add_file list.map fo)
  finally show ?case .
qed

lemma map_filter_all_Some:
  "\<forall>x\<in>set xs. \<exists>y. f x = Some y \<Longrightarrow> List.map_filter f xs = map (\<lambda>x. the (f x)) xs"
  by (induction xs) (auto simp: List.map_filter_simps)

lemma range_confs:
  assumes "registered sh" "ranges_over os sh"
  shows "map Title (List.map_filter (Config sh) (range_Config os)) = range_Config os"
    and "set (List.map_filter (Config sh) (range_Config os)) = ran (Config sh)"
proof -
  have all: "\<forall>k\<in>set (range_Config os). \<exists>c. Config sh k = Some c"
    using assms(2) by (auto simp: ranges_over_def)
  have mf: "List.map_filter (Config sh) (range_Config os) = map (\<lambda>k. the (Config sh k)) (range_Config os)"
    by (rule map_filter_all_Some [OF all])
  have "\<And>k. k \<in> set (range_Config os) \<Longrightarrow> Title (the (Config sh k)) = k"
    using all registered_Title [OF assms(1)] by fastforce
  then show "map Title (List.map_filter (Config sh) (range_Config os)) = range_Config os"
    unfolding mf by (simp add: map_idI)
  show "set (List.map_filter (Config sh) (range_Config os)) = ran (Config sh)"
    unfolding mf using assms(2) by (force simp: ranges_over_def ran_def dom_def image_iff)
qed

lemma files_perm:
  assumes "distinct (map Title cs1)" "distinct (map Title cs2)" "set cs1 = set cs2"
    and "inj_on (story_path sh) (Title ` set cs1)"
  shows "map_of (rev (map (file_of lib sh) cs1)) = map_of (rev (map (file_of lib sh) cs2))"
proof -
  have d: "\<And>cs. distinct (map Title cs) \<Longrightarrow> inj_on (story_path sh) (Title ` set cs) \<Longrightarrow>
              distinct (map fst (rev (map (file_of lib sh) cs)))"
  proof -
    fix cs :: "'a Conf list"
    assume "distinct (map Title cs)" and "inj_on (story_path sh) (Title ` set cs)"
    then have "distinct (map (story_path sh) (map Title cs))"
      by (subst distinct_map) simp
    moreover have "map fst (map (file_of lib sh) cs) = map (story_path sh) (map Title cs)"
      by (simp add: file_of_def)
    ultimately show "distinct (map fst (rev (map (file_of lib sh) cs)))"
      by (simp add: rev_map [symmetric] del: map_map)
  qed
  have i2: "inj_on (story_path sh) (Title ` set cs2)" using assms(3,4) by simp
  have "set (rev (map (file_of lib sh) cs1)) = set (rev (map (file_of lib sh) cs2))"
    using assms(3) by simp
  with d [OF assms(1) assms(4)] d [OF assms(2) i2] show ?thesis
    by (simp only: map_of_inject_set)
qed

lemma restrict_outside_add:
  "((A |` {p. \<not> P p}) ++ M) |` {p. P p} = M |` {p. P p}"
  by (auto simp: restrict_map_def map_add_def fun_eq_iff split: option.splits)

lemma first_run:
  assumes "configureStorybook lib os sh w = (chg, None, w1)"
  shows "stories_exists w1 \<and>
         files w1 = (files w |` {p. \<not> within_dir (storiesDir sh) p}) ++
                    map_of (rev (map (file_of lib sh) (List.map_filter (Config sh) (range_Config os)))) \<and>
         (\<forall>c\<in>set (List.map_filter (Config sh) (range_Config os)). \<exists>s. Encode_Conf lib c = Inr s)"
proof -
  let ?cs = "List.map_filter (Config sh) (range_Config os)"
  let ?D = "path_Join (Path sh) ''stories''"
  let ?w0 = "w\<lparr>files := files w |` {p. \<not> within_dir ?D p}, stories_exists := True\<rparr>"
  from assms obtain wl where l: "configureStorybook_loop lib os sh ?cs ?w0 = (None, wl)"
    and w1: "files w1 = files wl" "stories_exists w1 = stories_exists wl"
    unfolding configureStorybook_def Let_def
    by (auto split: prod.splits if_splits option.splits)
  from loop_success [OF l] w1 show ?thesis by (simp add: storiesDir_def)
qed

lemma second_run:
  assumes ok: "configure_calls_succeed os" and ex: "stories_exists w"
    and st: "files w |` {p. within_dir (storiesDir sh) p} = M |` {p. within_dir (storiesDir sh) p}"
    and enc: "\<forall>c\<in>set (List.map_filter (Config sh) (range_Config os)). \<exists>s. Encode_Conf lib c = Inr s"
    and M: "map_of (rev (map (file_of lib sh) (List.map_filter (Config sh) (range_Config os)))) = M"
  shows "configureStorybook lib os sh w =
           (False, None,
            w\<lparr>files := (files w |` {p. \<not> within_dir (storiesDir sh) p}) ++ M,
              stories_exists := True, preview_js := Some previewJS\<rparr>)"
proof -
  let ?cs = "List.map_filter (Config sh) (range_Config os)"
  let ?D = "path_Join (Path sh) ''stories''"
  let ?A = "files w |` {p. \<not> within_dir ?D p}"
  let ?w0 = "w\<lparr>files := ?A, stories_exists := True\<rparr>"
  have D: "storiesDir sh = ?D" by (simp add: storiesDir_def)
  have cr: "\<forall>name. Create_file os name = None" using ok by (simp add: configure_calls_succeed_def)
  have l: "configureStorybook_loop lib os sh ?cs ?w0 = (None, w\<lparr>files := ?A ++ M, stories_exists := True\<rparr>)"
    using loop_run [OF cr enc, of sh ?w0] by (simp add: M)
  have before: "HashDir lib None ?D w = (DefaultHash lib (M |` {p. within_dir ?D p}), None)"
    using ex st by (simp add: HashDir_def D)
  have after: "HashDir lib None ?D (w\<lparr>files := ?A ++ M, stories_exists := True\<rparr>) =
                 (DefaultHash lib (M |` {p. within_dir ?D p}), None)"
    by (simp add: HashDir_def restrict_outside_add)
  have f: "HashDir_before os = None" "RemoveAll_stories os = None" "Mkdir_stories os = None"
      "HashDir_after os = None" "WriteFile_preview os = None"
    using ok by (simp_all add: configure_calls_succeed_def)
  show ?thesis
    unfolding configureStorybook_def Let_def f D
    by (simp add: before l after)
qed

lemma stories_of_first_run:
  assumes "stories_exists w1"
    and "files w1 = (A |` {p. \<not> within_dir (storiesDir sh) p}) ++ M"
  shows "stories_of sh w1 = Some (M |` {p. within_dir (storiesDir sh) p})"
  using assms by (simp add: stories_of_def restrict_outside_add)

text \<open>
  Cleaned paths: \<^verbatim>\<open>path.Join\<close> gives one file for the titles \<^verbatim>\<open>a\<close> and \<^verbatim>\<open>./a\<close>, and takes
  the file of the title \<^verbatim>\<open>../x\<close> out of the stories directory.
\<close>

lemma path_Join_examples:
  "path_Join ''./storybook-server'' ''stories'' = ''storybook-server/stories'' \<and>
   path_Join ''./storybook-server'' ''stories/a.stories.json'' =
     ''storybook-server/stories/a.stories.json'' \<and>
   path_Join ''./storybook-server'' ''stories/./a.stories.json'' =
     ''storybook-server/stories/a.stories.json'' \<and>
   path_Join ''./storybook-server'' ''stories/../x.stories.json'' =
     ''storybook-server/x.stories.json'' \<and>
   path_Clean ''abc/def/../ghi'' = ''abc/ghi'' \<and>
   path_Clean ''abc/../../def'' = ''../def'' \<and>
   path_Clean ''/abc/def/../../..'' = ''/'' \<and>
   path_Clean ''a//b/'' = ''a/b''"
  by code_simp

text \<open>
  C6, as the claim states it, fails: two titles can name one file. With the components
  \<^verbatim>\<open>a\<close> and \<^verbatim>\<open>./a\<close> registered, both configurations are written to
  \<^verbatim>\<open>storybook-server/stories/a.stories.json\<close>, and the file keeps the one written last.
  A first run that visits \<^verbatim>\<open>a\<close> first and a second run that visits it last, both without
  error and on an unchanged registry, leave different files, so the second run returns
  \<^verbatim>\<open>configHasChanged = true\<close> and \<open>Build\<close> runs the build command.
\<close>

theorem configureStorybook_aliased_counterexample:
  "fst (snd (configureStorybook lib_a os_a_first sh_aliased w0)) = None \<and>
   fst (configureStorybook lib_a os_a_last sh_aliased
          (snd (snd (configureStorybook lib_a os_a_first sh_aliased w0)))) = True \<and>
   fst (snd (configureStorybook lib_a os_a_last sh_aliased
          (snd (snd (configureStorybook lib_a os_a_first sh_aliased w0))))) = None \<and>
   commands (snd (Build lib_a os_a_last sh_aliased
          (snd (snd (configureStorybook lib_a os_a_first sh_aliased w0))))) =
     [[''npm'', ''run'', ''build-storybook'']]"
  by (simp add: ex_defs pipe_defs path_defs sh_aliased_def lib_a_def os_a_first_def os_a_last_def panic_fn_def)

text \<open>
  C6, amended. Take a registry built by \<open>AddComponent\<close> whose titles give files of
  different paths, and a first run of \<open>configureStorybook\<close> that returns no error and
  computes its second hash. When the stories directory is not touched until a second run,
  and no system call of the second run fails, the second run returns
  \<^verbatim>\<open>configHasChanged = false\<close> and no error, leaves in the directory the files the first
  run left, and computes the same second hash. \<open>Build\<close>, as the second run on an installed
  directory, returns nil and runs no command; if it is not cancelled it logs last that the
  build step is skipped. The order in which \<^verbatim>\<open>range\<close> visits the registry may differ
  between the runs.
\<close>

theorem configureStorybook_twice_unchanged:
  assumes reg: "registered sh"
    and pd: "story_paths_differ sh"
    and r1: "ranges_over os1 sh" and r2: "ranges_over os2 sh"
    and run1: "configureStorybook lib os1 sh w = (chg1, None, w1)"
    and h1: "HashDir_after os1 = None"
    and same: "stories_of sh w1' = stories_of sh w1"
    and ok2: "configure_calls_succeed os2"
    and inst: "Stat_Path os2 = None"
  shows "(\<exists>w2. configureStorybook lib os2 sh w1' = (False, None, w2) \<and>
               stories_of sh w2 = stories_of sh w1 \<and>
               fst (HashDir lib (HashDir_after os2) (storiesDir sh) w2) =
               fst (HashDir lib (HashDir_after os1) (storiesDir sh) w1)) \<and>
         fst (Build lib os2 sh w1') = None \<and>
         commands (snd (Build lib os2 sh w1')) = commands w1' \<and>
         (\<not> ctx_Err os2 1 \<and> \<not> ctx_Err os2 2 \<longrightarrow>
            last (logged (snd (Build lib os2 sh w1'))) = ''Storybook is up-to-date, skipping build step.'')"
proof -
  let ?cs1 = "List.map_filter (Config sh) (range_Config os1)"
  let ?cs2 = "List.map_filter (Config sh) (range_Config os2)"
  let ?M = "map_of (rev (map (file_of lib sh) ?cs1))"
  let ?S = "{p. within_dir (storiesDir sh) p}"
  let ?N = "{p. \<not> within_dir (storiesDir sh) p}"
  from first_run [OF run1]
  have x1: "stories_exists w1" and f1: "files w1 = (files w |` ?N) ++ ?M"
    and e1: "\<forall>c\<in>set ?cs1. \<exists>s. Encode_Conf lib c = Inr s" by simp_all
  have so1: "stories_of sh w1 = Some (?M |` ?S)"
    by (rule stories_of_first_run [OF x1 f1])
  have sets: "set ?cs1 = set ?cs2"
    using range_confs(2) [OF reg r1] range_confs(2) [OF reg r2] by simp
  have t1: "map Title ?cs1 = range_Config os1" by (rule range_confs(1) [OF reg r1])
  have d1: "distinct (map Title ?cs1)" using t1 r1 by (simp add: ranges_over_def)
  have d2: "distinct (map Title ?cs2)" using range_confs(1) [OF reg r2] r2 by (simp add: ranges_over_def)
  have "Title ` set ?cs1 = set (map Title ?cs1)" by simp
  also have "\<dots> = dom (Config sh)" using t1 r1 by (simp add: ranges_over_def)
  finally have inj: "inj_on (story_path sh) (Title ` set ?cs1)"
    using pd by (simp add: story_paths_differ_def)
  have M2: "map_of (rev (map (file_of lib sh) ?cs2)) = ?M"
    using files_perm [OF d1 d2 sets inj, of lib] by simp
  have e2: "\<forall>c\<in>set ?cs2. \<exists>s. Encode_Conf lib c = Inr s" using e1 sets by simp
  have run2: "\<And>w'. stories_exists w' \<Longrightarrow> files w' |` ?S = ?M |` ?S \<Longrightarrow>
      configureStorybook lib os2 sh w' =
        (False, None, w'\<lparr>files := (files w' |` ?N) ++ ?M, stories_exists := True,
                         preview_js := Some previewJS\<rparr>)"
    by (rule second_run [OF ok2 _ _ e2 M2])
  have x1': "stories_exists w1'" and f1': "files w1' |` ?S = ?M |` ?S"
    using same so1 by (auto simp: stories_of_def split: if_splits)
  have ha2: "HashDir_after os2 = None" using ok2 by (simp add: configure_calls_succeed_def)
  let ?w2 = "w1'\<lparr>files := (files w1' |` ?N) ++ ?M, stories_exists := True,
                  preview_js := Some previewJS\<rparr>"
  have so2: "stories_of sh ?w2 = Some (?M |` ?S)"
    by (rule stories_of_first_run) simp_all
  have hd2: "HashDir lib None (storiesDir sh) ?w2 = (DefaultHash lib (?M |` ?S), None)"
    by (simp add: HashDir_def restrict_outside_add)
  have hd1: "HashDir lib None (storiesDir sh) w1 = (DefaultHash lib (?M |` ?S), None)"
    using x1 f1 by (simp add: HashDir_def restrict_outside_add)
  have A: "\<exists>w2. configureStorybook lib os2 sh w1' = (False, None, w2) \<and>
               stories_of sh w2 = stories_of sh w1 \<and>
               fst (HashDir lib (HashDir_after os2) (storiesDir sh) w2) =
               fst (HashDir lib (HashDir_after os1) (storiesDir sh) w1)"
  proof (intro exI conjI)
    show "configureStorybook lib os2 sh w1' = (False, None, ?w2)" by (rule run2 [OF x1' f1'])
    show "stories_of sh ?w2 = stories_of sh w1" using so2 so1 by simp
    show "fst (HashDir lib (HashDir_after os2) (storiesDir sh) ?w2) =
          fst (HashDir lib (HashDir_after os1) (storiesDir sh) w1)"
      unfolding h1 ha2 hd1 hd2 by simp
  qed
  let ?wb = "Log_Info (Log_Info (Log_Info w1' ''Installing storybook.'')
                 ''Storybook already installed, Skipping installation.'') ''Configuring storybook.''"
  have xb: "stories_exists ?wb" and fb: "files ?wb |` ?S = ?M |` ?S"
    using x1' f1' by (simp_all add: Log_Info_def)
  have B: "fst (Build lib os2 sh w1') = None \<and>
         commands (snd (Build lib os2 sh w1')) = commands w1' \<and>
         (\<not> ctx_Err os2 1 \<and> \<not> ctx_Err os2 2 \<longrightarrow>
            last (logged (snd (Build lib os2 sh w1'))) = ''Storybook is up-to-date, skipping build step.'')"
    using inst run2 [OF xb fb]
    by (simp add: Build_def installStorybook_def Let_def Log_Info_def)
  from A B show ?thesis by blast
qed

lemmas two_defs = sh_two_def lib_two_def os_button_first_def os_header_first_def

theorem configureStorybook_twice_unchanged_witness:
  "registered sh_two \<and> story_paths_differ sh_two \<and>
   ranges_over os_button_first sh_two \<and> ranges_over os_header_first sh_two \<and>
   configure_calls_succeed os_header_first \<and>
   fst (snd (configureStorybook lib_two os_button_first sh_two w0)) = None \<and>
   fst (configureStorybook lib_two os_header_first sh_two
          (snd (snd (configureStorybook lib_two os_button_first sh_two w0)))) = False \<and>
   commands (snd (Build lib_two os_header_first sh_two
          (snd (snd (configureStorybook lib_two os_button_first sh_two w0))))) = []"
proof -
  let ?run = "configureStorybook lib_two os_button_first sh_two w0"
  let ?w1 = "snd (snd ?run)"
  have reg: "registered sh_two"
    unfolding sh_two_def by (intro registered.intros)
  have dom: "dom (Config sh_two) = {''button'', ''header''}"
    by (auto simp: sh_two_def AddComponent_def New_def Let_def)
  have p: "story_path sh_two ''button'' = ''storybook-server/stories/button.stories.json''"
    "story_path sh_two ''header'' = ''storybook-server/stories/header.stories.json''"
    by (simp_all add: story_path_def path_defs sh_two_def AddComponent_def New_def Let_def)
  have pd: "story_paths_differ sh_two"
    unfolding story_paths_differ_def dom by (simp add: p)
  have r1: "ranges_over os_button_first sh_two"
    unfolding ranges_over_def dom by (auto simp: os_button_first_def os_ok_def)
  have r2: "ranges_over os_header_first sh_two"
    unfolding ranges_over_def dom by (auto simp: os_header_first_def os_ok_def)
  have ok: "configure_calls_succeed os_header_first"
    by (simp add: configure_calls_succeed_def os_header_first_def os_ok_def)
  have e: "fst (snd ?run) = None" and c: "commands ?w1 = []"
    by (simp_all add: ex_defs pipe_defs path_defs two_defs)
  have run1: "?run = (fst ?run, None, ?w1)"
    using e by (metis prod.collapse)
  have h1: "HashDir_after os_button_first = None" and inst: "Stat_Path os_header_first = None"
    by (simp_all add: os_button_first_def os_header_first_def os_ok_def)
  note T = configureStorybook_twice_unchanged [OF reg pd r1 r2 run1 h1 refl ok inst]
  from T obtain w2 where "configureStorybook lib_two os_header_first sh_two ?w1 = (False, None, w2)"
    by blast
  then have g: "fst (configureStorybook lib_two os_header_first sh_two ?w1) = False" by simp
  from T have "commands (snd (Build lib_two os_header_first sh_two ?w1)) = commands ?w1" by blast
  with c have b: "commands (snd (Build lib_two os_header_first sh_two ?w1)) = []" by simp
  from reg pd r1 r2 ok e g b show ?thesis by blast
qed

end
